theory Spec2Isabelle
  imports Complex_Main "HOL-Library.Multiset"
begin

section \<open>Exceptions\<close>

text \<open>
  The scheduler of \<^verbatim>\<open>coffea/processor/work_queue_tools.py\<close> signals every failure by
  raising. A raise is a value here: the exception class, with the message template of
  the source where the source raises it itself (the \<^verbatim>\<open>{}\<close> placeholders are left
  unformatted), and a short description where the interpreter or a builtin raises it.
\<close>

datatype error =
    KeyError string
  | RuntimeError string
  | ValueError string
  | TypeError string
  | AttributeError string
  | NameError string
  | UnboundLocalError string
  | OverflowError string
  | ZeroDivisionError string
  | OSError string
  | NotImplementedError

section \<open>Python numbers\<close>

text \<open>
  A Python float is an IEEE 754 binary64 number. \<open>double x\<close> is the double nearest to
  the real \<open>x\<close>, ties to the even significand: 53 significant bits down to the exponent
  \<open>-1022\<close>, and the fixed spacing of the subnormal numbers below it. The range is left
  open above; the operations test the rounded value against \<open>2 ^ 1024\<close> and overflow.
  The two zeros are not told apart (no operation of the scheduler divides by a float
  zero or reads its sign).
\<close>

definition round_half_even :: "real \<Rightarrow> int" where
  "round_half_even x =
     (let f = \<lfloor>x\<rfloor>; d = x - of_int f
      in if d < 1/2 then f else if d > 1/2 then f + 1 else if even f then f else f + 1)"

definition double :: "real \<Rightarrow> real" where
  "double x =
     (if x = 0 then 0
      else let e = max \<lfloor>log 2 \<bar>x\<bar>\<rfloor> (- 1022) - 52
           in of_int (round_half_even (x / 2 powr of_int e)) * 2 powr of_int e)"

datatype pyfloat = Finite real | PInf | NInf | NaN

definition to_float :: "real \<Rightarrow> pyfloat" where
  "to_float x =
     (let y = double x
      in if 2 ^ 1024 \<le> y then PInf else if y \<le> - (2 ^ 1024) then NInf else Finite y)"

text \<open>
  A number is a Python \<^verbatim>\<open>int\<close> (unbounded) or a float. Python compares an int with a
  float by value, exactly; every comparison with a NaN is false.
\<close>

datatype number = PyInt int | PyFloat pyfloat

fun exact :: "number \<Rightarrow> pyfloat" where
  "exact (PyInt i) = Finite (of_int i)"
| "exact (PyFloat x) = x"

definition isnan :: "pyfloat \<Rightarrow> bool" where
  "isnan x = (x = NaN)"

fun lt :: "pyfloat \<Rightarrow> pyfloat \<Rightarrow> bool" where
  "lt (Finite a) (Finite b) = (a < b)"
| "lt (Finite a) PInf = True"
| "lt NInf (Finite b) = True"
| "lt NInf PInf = True"
| "lt _ _ = False"

definition ge :: "pyfloat \<Rightarrow> pyfloat \<Rightarrow> bool" where
  "ge x y = (\<not> isnan x \<and> \<not> isnan y \<and> \<not> lt x y)"

definition num_lt :: "number \<Rightarrow> number \<Rightarrow> bool" where
  "num_lt a b = lt (exact a) (exact b)"

text \<open>The truth value of a float: false for zero only (a NaN is true).\<close>

definition truthy :: "pyfloat \<Rightarrow> bool" where
  "truthy x = (x \<noteq> Finite 0)"

text \<open>
  The float product and sum, as numpy's \<^verbatim>\<open>float64\<close> computes them: rounded once, an
  overflow giving an infinity, infinity times zero and the sum of opposite infinities
  a NaN.
\<close>

fun sign :: "pyfloat \<Rightarrow> int" where
  "sign (Finite a) = (if a < 0 then - 1 else if a = 0 then 0 else 1)"
| "sign PInf = 1"
| "sign NInf = - 1"
| "sign NaN = 0"

definition fmul :: "pyfloat \<Rightarrow> pyfloat \<Rightarrow> pyfloat" where
  "fmul x y =
     (case (x, y) of
        (Finite a, Finite b) \<Rightarrow> to_float (a * b)
      | _ \<Rightarrow>
          if isnan x \<or> isnan y \<or> sign x * sign y = 0 then NaN
          else if 0 < sign x * sign y then PInf else NInf)"

definition fadd :: "pyfloat \<Rightarrow> pyfloat \<Rightarrow> pyfloat" where
  "fadd x y =
     (case (x, y) of
        (Finite a, Finite b) \<Rightarrow> to_float (a + b)
      | (Finite a, _) \<Rightarrow> y
      | (_, Finite b) \<Rightarrow> x
      | _ \<Rightarrow> if isnan x \<or> isnan y \<or> x \<noteq> y then NaN else x)"

text \<open>
  True division \<^verbatim>\<open>a / b\<close> of an int. By an int, Python rounds the exact quotient once
  and raises OverflowError when it is beyond the doubles. By a float, the int is
  converted first (OverflowError when it is beyond the doubles) and the floats are
  divided: ZeroDivisionError for a zero divisor, zero for an infinite one.
\<close>

definition int_truediv :: "int \<Rightarrow> int \<Rightarrow> error + real" where
  "int_truediv a b =
     (if b = 0 then Inl (ZeroDivisionError ''division by zero'')
      else let y = double (of_int a / of_int b)
           in if 2 ^ 1024 \<le> \<bar>y\<bar>
              then Inl (OverflowError ''integer division result too large for a float'')
              else Inr y)"

definition truediv :: "int \<Rightarrow> number \<Rightarrow> error + pyfloat" where
  "truediv a d =
     (case d of
        PyInt b \<Rightarrow> (case int_truediv a b of Inl e \<Rightarrow> Inl e | Inr y \<Rightarrow> Inr (Finite y))
      | PyFloat x \<Rightarrow>
          if 2 ^ 1024 \<le> \<bar>double (of_int a)\<bar>
          then Inl (OverflowError ''int too large to convert to float'')
          else (case x of
                  Finite b \<Rightarrow>
                    if b = 0 then Inl (ZeroDivisionError ''float division by zero'')
                    else Inr (to_float (double (of_int a) / b))
                | NaN \<Rightarrow> Inr NaN
                | _ \<Rightarrow> Inr (Finite 0)))"

text \<open>
  \<^verbatim>\<open>math.floor(x)\<close> and \<^verbatim>\<open>int(x)\<close> of a float give an int, exactly; both raise ValueError
  for a NaN and OverflowError for an infinity. \<^verbatim>\<open>int\<close> truncates towards zero.
\<close>

definition math_floor :: "pyfloat \<Rightarrow> error + int" where
  "math_floor x =
     (case x of
        Finite a \<Rightarrow> Inr \<lfloor>a\<rfloor>
      | NaN \<Rightarrow> Inl (ValueError ''cannot convert float NaN to integer'')
      | _ \<Rightarrow> Inl (OverflowError ''cannot convert float infinity to integer''))"

definition py_int :: "number \<Rightarrow> error + int" where
  "py_int v =
     (case v of
        PyInt i \<Rightarrow> Inr i
      | PyFloat (Finite a) \<Rightarrow> Inr (if 0 \<le> a then \<lfloor>a\<rfloor> else \<lceil>a\<rceil>)
      | PyFloat NaN \<Rightarrow> Inl (ValueError ''cannot convert float NaN to integer'')
      | PyFloat _ \<Rightarrow> Inl (OverflowError ''cannot convert float infinity to integer''))"

text \<open>
  \<^verbatim>\<open>max(a, b)\<close> keeps \<^verbatim>\<open>a\<close> unless \<^verbatim>\<open>b\<close> is greater; \<^verbatim>\<open>min\<close> of a non-empty list (its first
  element \<open>c\<close>, the others \<open>cs\<close>) keeps what it has unless the next element is smaller.
\<close>

definition py_max :: "number \<Rightarrow> number \<Rightarrow> number" where
  "py_max a b = (if num_lt a b then b else a)"

definition py_min :: "pyfloat \<Rightarrow> pyfloat list \<Rightarrow> pyfloat" where
  "py_min c cs = foldl (\<lambda>m x. if lt x m then x else m) c cs"

text \<open>
  \<^verbatim>\<open>len(x)\<close> calls \<^verbatim>\<open>x.__len__()\<close> and accepts what it returns only in the range of an
  index: ValueError below 0, OverflowError above \<^verbatim>\<open>sys.maxsize\<close>.
\<close>

definition py_len :: "int \<Rightarrow> error + int" where
  "py_len n =
     (if n < 0 then Inl (ValueError ''__len__() should return >= 0'')
      else if 2 ^ 63 \<le> n then Inl (OverflowError ''cannot fit int into an index-sized integer'')
      else Inr n)"

section \<open>Chunk-size estimator\<close>

text \<open>
  Three library functions are parameters of the estimator.
  \<^item> \<open>math_log2 lib v\<close> is \<^verbatim>\<open>math.log2(v)\<close>, the C library's logarithm of the double
    nearest to \<open>v\<close>: a float, or the exception raised.
  \<^item> \<open>np_quantile lib avgs p\<close> is the entry for the fraction \<open>p\<close> of the array
    \<^verbatim>\<open>numpy.quantile(avgs, [0.25, 0.5, 0.75], interpolation="nearest")\<close>.
  \<^item> \<open>sp_linregress lib xs ys\<close> is the slope and intercept of
    \<^verbatim>\<open>scipy.stats.linregress(xs, ys)\<close>, or \<open>None\<close> when the call raises (the source
    catches every \<^verbatim>\<open>Exception\<close> there).
\<close>

record libs =
  math_log2 :: "number \<Rightarrow> error + pyfloat"
  np_quantile :: "pyfloat list \<Rightarrow> real \<Rightarrow> pyfloat"
  sp_linregress :: "number list \<Rightarrow> int list \<Rightarrow> (pyfloat \<times> pyfloat) option"

text \<open>
  \<^verbatim>\<open>
  def _floor_to_pow2(value):
      if value < 1:
          return 1
      return pow(2, math.floor(math.log2(value)))
  \<close>
  \<^verbatim>\<open>pow(2, k)\<close> is the int \<open>2 ^ k\<close> for \<open>k \<ge> 0\<close> and a float for a negative \<open>k\<close>.
\<close>

definition pow2 :: "int \<Rightarrow> number" where
  "pow2 k = (if 0 \<le> k then PyInt (2 ^ nat k) else PyFloat (to_float (2 powr of_int k)))"

definition floor_to_pow2 :: "libs \<Rightarrow> number \<Rightarrow> error + number" where
  "floor_to_pow2 lib v =
     (if num_lt v (PyInt 1) then Inr (PyInt 1)
      else case math_log2 lib v of
             Inl e \<Rightarrow> Inl e
           | Inr l \<Rightarrow> (case math_floor l of Inl e \<Rightarrow> Inl e | Inr k \<Rightarrow> Inr (pow2 k)))"

text \<open>
  \<^verbatim>\<open>random.choices(population, weights=w)[0]\<close> draws one element of the population,
  the element at position \<open>i\<close> with probability \<open>w\<^sub>i / sum w\<close>. The draw itself is
  the standard library's; the model keeps its distribution, each outcome paired with
  its probability, population order kept.
\<close>

definition choices :: "'a list \<Rightarrow> rat list \<Rightarrow> ('a \<times> rat) list" where
  "choices population weights = zip population (map (\<lambda>w. w / sum_list weights) weights)"

text \<open>
  \<^verbatim>\<open>
  def _sample_chunksize(chunksize):
      return int(random.choices([chunksize, max(chunksize / 2, 1)], weights=[90, 10])[0])
  \<close>
  \<^verbatim>\<open>chunksize\<close> is an int; the population is built, and \<^verbatim>\<open>chunksize / 2\<close> divided, before
  the draw. \<^verbatim>\<open>max\<close> keeps the quotient unless 1 is greater, and \<^verbatim>\<open>int\<close> truncates it.
\<close>

definition sample_chunksize :: "int \<Rightarrow> error + (int \<times> rat) list" where
  "sample_chunksize chunksize =
     (case int_truediv chunksize 2 of
        Inl e \<Rightarrow> Inl e
      | Inr half \<Rightarrow>
          Inr (choices [chunksize, if half < 1 then 1 else \<lfloor>half\<rfloor>] [90, 10]))"

text \<open>
  \<^verbatim>\<open>
  def _compute_chunksize_target(target, pairs):
      if len(pairs) < 1 or pairs[0][0] < 0:
          return None
      avgs = [e / max(1, target) for (target, e) in pairs]
      quantiles = numpy.quantile(avgs, [0.25, 0.5, 0.75], interpolation="nearest")
      pairs_filtered = []
      for (i, avg) in enumerate(avgs):
          if avg >= quantiles[0]:
              pairs_filtered.append(pairs[i])
      try:
          slope, intercept, r_value, p_value, std_err = scipy.stats.linregress(
              [rep[0] for rep in pairs_filtered], [rep[1] for rep in pairs_filtered])
      except Exception:
          slope = None
      if (slope is None or numpy.isnan(slope) or numpy.isnan(intercept)
              or slope < 0 or intercept > 0):
          slope = quantiles[1]
          intercept = 0
      org = (slope * target) + intercept
      return org
  \<close>
  Each pair is (resource, events): the resource is the wall time, a float, or the
  memory, an int; the events are an int. Inside the comprehension the name
  \<^verbatim>\<open>target\<close> is the pair's resource, not the function's argument. The target itself
  enters the product as a float.
\<close>

fun sequence :: "(error + 'a) list \<Rightarrow> error + 'a list" where
  "sequence [] = Inr []"
| "sequence (Inl e # _) = Inl e"
| "sequence (Inr x # rest) = (case sequence rest of Inl e \<Rightarrow> Inl e | Inr xs \<Rightarrow> Inr (x # xs))"

definition avgs_of :: "(number \<times> int) list \<Rightarrow> error + pyfloat list" where
  "avgs_of pairs = sequence (map (\<lambda>(r, e). truediv e (py_max (PyInt 1) r)) pairs)"

definition filter_pairs :: "pyfloat \<Rightarrow> pyfloat list \<Rightarrow> (number \<times> int) list \<Rightarrow> (number \<times> int) list" where
  "filter_pairs q25 avgs pairs = map snd (filter (\<lambda>(avg, p). ge avg q25) (zip avgs pairs))"

definition fit :: "libs \<Rightarrow> pyfloat \<Rightarrow> (number \<times> int) list \<Rightarrow> pyfloat \<times> pyfloat" where
  "fit lib q50 pairs_filtered =
     (case sp_linregress lib (map fst pairs_filtered) (map snd pairs_filtered) of
        None \<Rightarrow> (q50, Finite 0)
      | Some (slope, intercept) \<Rightarrow>
          if isnan slope \<or> isnan intercept \<or> lt slope (Finite 0) \<or> lt (Finite 0) intercept
          then (q50, Finite 0)
          else (slope, intercept))"

definition compute_chunksize_target ::
  "libs \<Rightarrow> pyfloat \<Rightarrow> (number \<times> int) list \<Rightarrow> error + pyfloat option" where
  "compute_chunksize_target lib target pairs =
     (case pairs of
        [] \<Rightarrow> Inr None
      | p0 # _ \<Rightarrow>
          if num_lt (fst p0) (PyInt 0) then Inr None
          else
            case avgs_of pairs of
              Inl e \<Rightarrow> Inl e
            | Inr avgs \<Rightarrow>
                (let pairs_filtered = filter_pairs (np_quantile lib avgs (1/4)) avgs pairs;
                     (slope, intercept) = fit lib (np_quantile lib avgs (1/2)) pairs_filtered
                 in Inr (Some (fadd (fmul slope target) intercept))))"

text \<open>
  \<^verbatim>\<open>
  def _compute_chunksize(base_chunksize, resource_targets, task_reports):
      chunksize_time = None
      chunksize_memory = None
      if resource_targets is not None and len(task_reports) > 1:
          target_time = resource_targets.get("wall_time", None)
          if target_time:
              chunksize_time = _compute_chunksize_target(
                  target_time, [(time, evs) for (evs, time, mem) in task_reports])
          target_memory = resource_targets["memory"]
          if target_memory:
              chunksize_memory = _compute_chunksize_target(
                  target_memory, [(mem, evs) for (evs, time, mem) in task_reports])
      candidate_sizes = [c for c in [chunksize_time, chunksize_memory] if c]
      if candidate_sizes:
          chunksize = min(candidate_sizes)
      else:
          chunksize = base_chunksize
      try:
          chunksize = int(_floor_to_pow2(chunksize))
      except ValueError:
          chunksize = base_chunksize
      return chunksize
  \<close>
  \<^verbatim>\<open>resource_targets\<close> is a dictionary or \<^verbatim>\<open>None\<close>; a report is the triple (events,
  wall time, memory) that the control loop appends for a finished task:
  \<^verbatim>\<open>(len(task), task.cmd_execution_time / 1e6, task.resources_measured.memory)\<close>.
  \<^verbatim>\<open>resource_targets["memory"]\<close> raises KeyError on a dictionary without that key.
  \<^verbatim>\<open>base_chunksize\<close> is the int \<^verbatim>\<open>executor.chunksize\<close>.
\<close>

type_synonym resource_targets = "(string \<rightharpoonup> pyfloat) option"
type_synonym task_report = "int \<times> pyfloat \<times> int"

definition estimate_for ::
  "libs \<Rightarrow> pyfloat option \<Rightarrow> (number \<times> int) list \<Rightarrow> error + pyfloat option" where
  "estimate_for lib target pairs =
     (case target of
        None \<Rightarrow> Inr None
      | Some t \<Rightarrow> if truthy t then compute_chunksize_target lib t pairs else Inr None)"

definition candidate_sizes :: "pyfloat option list \<Rightarrow> pyfloat list" where
  "candidate_sizes cs =
     concat (map (\<lambda>c. case c of None \<Rightarrow> [] | Some v \<Rightarrow> if truthy v then [v] else []) cs)"

definition estimates ::
  "libs \<Rightarrow> resource_targets \<Rightarrow> task_report list \<Rightarrow> error + pyfloat option \<times> pyfloat option" where
  "estimates lib resource_targets task_reports =
     (case resource_targets of
        None \<Rightarrow> Inr (None, None)
      | Some targets \<Rightarrow>
          if length task_reports > 1 then
            (case estimate_for lib (targets ''wall_time'')
                    (map (\<lambda>(evs, time, mem). (PyFloat time, evs)) task_reports) of
               Inl e \<Rightarrow> Inl e
             | Inr chunksize_time \<Rightarrow>
                 (case targets ''memory'' of
                    None \<Rightarrow> Inl (KeyError ''memory'')
                  | Some target_memory \<Rightarrow>
                      (case estimate_for lib (Some target_memory)
                              (map (\<lambda>(evs, time, mem). (PyInt mem, evs)) task_reports) of
                         Inl e \<Rightarrow> Inl e
                       | Inr chunksize_memory \<Rightarrow> Inr (chunksize_time, chunksize_memory))))
          else Inr (None, None))"

definition floored :: "libs \<Rightarrow> int \<Rightarrow> number \<Rightarrow> error + int" where
  "floored lib base_chunksize chunksize =
     (case (case floor_to_pow2 lib chunksize of Inl e \<Rightarrow> Inl e | Inr v \<Rightarrow> py_int v) of
        Inl (ValueError _) \<Rightarrow> Inr base_chunksize
      | Inl e \<Rightarrow> Inl e
      | Inr n \<Rightarrow> Inr n)"

definition compute_chunksize ::
  "libs \<Rightarrow> int \<Rightarrow> resource_targets \<Rightarrow> task_report list \<Rightarrow> error + int" where
  "compute_chunksize lib base_chunksize resource_targets task_reports =
     (case estimates lib resource_targets task_reports of
        Inl e \<Rightarrow> Inl e
      | Inr (chunksize_time, chunksize_memory) \<Rightarrow>
          floored lib base_chunksize
            (case candidate_sizes [chunksize_time, chunksize_memory] of
               [] \<Rightarrow> PyInt base_chunksize
             | c # cs \<Rightarrow> PyFloat (py_min c cs)))"

subsection \<open>Reference instances of the libraries\<close>

text \<open>
  For evaluating the estimator on concrete input.
  \<^item> \<^verbatim>\<open>math.log2\<close> as the correctly rounded logarithm of the argument's double (of an
    int below \<open>2 ^ 1024\<close>, or a float), with the ValueError of the C library's domain
    error and its values at a NaN and at infinity.
  \<^item> The nearest-rank quantile: numpy sorts and takes the entry at the position
    \<open>(n - 1) * p\<close>, rounded half to even.
  \<^item> The least-squares line through the points, rounded to doubles; none for fewer
    than two points or when all \<open>x\<close> are equal. scipy computes it in floats from the
    means and the covariance matrix; on the samples used below every intermediate
    value of that computation is an integer below \<open>2 ^ 53\<close> or a dyadic fraction
    of one, so the rounding is exact there.
\<close>

definition log2_rounded :: "number \<Rightarrow> error + pyfloat" where
  "log2_rounded v =
     (case exact v of
        Finite a \<Rightarrow> if a \<le> 0 then Inl (ValueError ''math domain error'')
                    else Inr (Finite (double (log 2 (double a))))
      | NaN \<Rightarrow> Inr NaN
      | PInf \<Rightarrow> Inr PInf
      | NInf \<Rightarrow> Inl (ValueError ''math domain error''))"

definition real_of :: "pyfloat \<Rightarrow> real" where
  "real_of x = (case x of Finite a \<Rightarrow> a | _ \<Rightarrow> 0)"

definition quantile_nearest :: "pyfloat list \<Rightarrow> real \<Rightarrow> pyfloat" where
  "quantile_nearest xs p =
     sort_key real_of xs ! nat (round_half_even ((real (length xs) - 1) * p))"

definition linregress_exact :: "number list \<Rightarrow> int list \<Rightarrow> (pyfloat \<times> pyfloat) option" where
  "linregress_exact xs ys =
     (let xr = map (real_of \<circ> exact) xs;
          yr = map real_of_int ys;
          n = real (length xr);
          xmean = sum_list xr / n;
          ymean = sum_list yr / n;
          ssxm = sum_list (map (\<lambda>x. (x - xmean) * (x - xmean)) xr);
          ssxym = sum_list (map (\<lambda>(x, y). (x - xmean) * (y - ymean)) (zip xr yr))
      in if length xr < 2 \<or> ssxm = 0 then None
         else Some (to_float (ssxym / ssxm), to_float (ymean - (ssxym / ssxm) * xmean)))"

definition reference :: libs where
  "reference =
     \<lparr>math_log2 = log2_rounded, np_quantile = quantile_nearest,
      sp_linregress = linregress_exact\<rparr>"


section \<open>Remote merge helper\<close>

text \<open>
  \<^verbatim>\<open>
  def accumulate_result_files(chunks_accum_in_mem, files_to_accumulate, accumulator=None):
      from coffea.processor import accumulate
      in_memory = []
      # work on local copy of list
      files_to_accumulate = list(files_to_accumulate)
      while files_to_accumulate:
          f = files_to_accumulate.pop()
          # ensure that no files are left unprocessed because lenght of list
          # smaller than desired files in memory.
          chunks_accum_in_mem = min(chunks_accum_in_mem, len(files_to_accumulate))
          with open(f, "rb") as rf:
              result_f = _decompress(result_f)
          if not accumulator:
              accumulator = result_f
              continue
          in_memory.append(result_f)
          if len(in_memory) > chunks_accum_in_mem - 1:
              accumulator = accumulate(in_memory, accumulator)
              while in_memory:
                  result = in_memory.pop()  # noqa
                  del result
      return accumulator
  \<close>
  What comes from outside this file is a parameter of the model.
  \<^item> \<open>open_file f\<close> is the outcome of \<^verbatim>\<open>open(f, "rb")\<close>: the exception raised, if any.
  \<^item> \<open>decompress x\<close> is \<^verbatim>\<open>_decompress(x)\<close>, imported from \<^verbatim>\<open>executor.py\<close>.
  \<^item> \<open>is_true r\<close> is Python's truth value of a result (\<^verbatim>\<open>not accumulator\<close> holds for
    \<^verbatim>\<open>None\<close> and for a falsy result, an empty dictionary say).
  \<^item> \<open>accumulate in_memory accumulator\<close> is \<^verbatim>\<open>coffea.processor.accumulate\<close>.

  \<^verbatim>\<open>result_f\<close> is a local variable of the function (it is assigned in it): the state of
  the loop holds its value, \<open>None\<close> while it is unbound. The statement under \<^verbatim>\<open>with\<close>
  reads it as the argument of \<^verbatim>\<open>_decompress\<close> before it assigns it, and reading an
  unbound local raises UnboundLocalError.

  \<^verbatim>\<open>pop()\<close> takes the last file, so the loop runs over the reversed list. Besides the
  value returned, the loop function records what is in memory each time the result
  of a file has been put in its place (made the accumulator, or appended to
  \<^verbatim>\<open>in_memory\<close> and not yet merged): the pair of \<^verbatim>\<open>in_memory\<close> and \<^verbatim>\<open>accumulator\<close>.
\<close>

type_synonym 'r snapshot = "'r list \<times> 'r option"

definition falsy :: "('r \<Rightarrow> bool) \<Rightarrow> 'r option \<Rightarrow> bool" where
  "falsy is_true accumulator = (case accumulator of None \<Rightarrow> True | Some a \<Rightarrow> \<not> is_true a)"

definition read_local :: "string \<Rightarrow> 'a option \<Rightarrow> error + 'a" where
  "read_local name v = (case v of None \<Rightarrow> Inl (UnboundLocalError name) | Some x \<Rightarrow> Inr x)"

fun accumulate_loop ::
  "('f \<Rightarrow> error option) \<Rightarrow> ('r \<Rightarrow> error + 'r) \<Rightarrow> ('r \<Rightarrow> bool) \<Rightarrow> ('r list \<Rightarrow> 'r \<Rightarrow> 'r) \<Rightarrow>
   'f list \<Rightarrow> int \<Rightarrow> 'r list \<Rightarrow> 'r option \<Rightarrow> 'r option \<Rightarrow>
   (error + 'r option) \<times> 'r snapshot list" where
  "accumulate_loop open_file decompress is_true accumulate [] chunks_accum_in_mem in_memory
     accumulator result_f = (Inr accumulator, [])"
| "accumulate_loop open_file decompress is_true accumulate (f # files) chunks_accum_in_mem in_memory
     accumulator result_f =
     (let chunks_accum_in_mem = min chunks_accum_in_mem (int (length files))
      in case open_file f of
           Some e \<Rightarrow> (Inl e, [])
         | None \<Rightarrow>
             (case read_local ''result_f'' result_f of
                Inl e \<Rightarrow> (Inl e, [])
              | Inr arg \<Rightarrow>
                  (case decompress arg of
                     Inl e \<Rightarrow> (Inl e, [])
                   | Inr r \<Rightarrow>
                       if falsy is_true accumulator then
                         (let (res, seen) = accumulate_loop open_file decompress is_true accumulate
                                files chunks_accum_in_mem in_memory (Some r) (Some r)
                          in (res, (in_memory, Some r) # seen))
                       else
                         (let in_memory = in_memory @ [r];
                              (res, seen) =
                                (if int (length in_memory) > chunks_accum_in_mem - 1
                                 then accumulate_loop open_file decompress is_true accumulate files
                                        chunks_accum_in_mem []
                                        (map_option (accumulate in_memory) accumulator) (Some r)
                                 else accumulate_loop open_file decompress is_true accumulate files
                                        chunks_accum_in_mem in_memory accumulator (Some r))
                          in (res, (in_memory, accumulator) # seen)))))"

definition accumulate_result_files ::
  "('f \<Rightarrow> error option) \<Rightarrow> ('r \<Rightarrow> error + 'r) \<Rightarrow> ('r \<Rightarrow> bool) \<Rightarrow> ('r list \<Rightarrow> 'r \<Rightarrow> 'r) \<Rightarrow>
   int \<Rightarrow> 'f list \<Rightarrow> 'r option \<Rightarrow> error + 'r option" where
  "accumulate_result_files open_file decompress is_true accumulate chunks_accum_in_mem
     files_to_accumulate accumulator =
     fst (accumulate_loop open_file decompress is_true accumulate (rev files_to_accumulate)
            chunks_accum_in_mem [] accumulator None)"

definition in_memory_snapshots ::
  "('f \<Rightarrow> error option) \<Rightarrow> ('r \<Rightarrow> error + 'r) \<Rightarrow> ('r \<Rightarrow> bool) \<Rightarrow> ('r list \<Rightarrow> 'r \<Rightarrow> 'r) \<Rightarrow>
   int \<Rightarrow> 'f list \<Rightarrow> 'r option \<Rightarrow> 'r snapshot list" where
  "in_memory_snapshots open_file decompress is_true accumulate chunks_accum_in_mem
     files_to_accumulate accumulator =
     snd (accumulate_loop open_file decompress is_true accumulate (rev files_to_accumulate)
            chunks_accum_in_mem [] accumulator None)"

section \<open>Work items, tasks and the queue\<close>

text \<open>
  \<^verbatim>\<open>WorkItem\<close> is imported from \<^verbatim>\<open>executor.py\<close>; this file builds one from seven
  positional fields and reads them back by name.
\<close>

record work_item =
  dataset :: string
  filename :: string
  treename :: string
  entrystart :: int
  entrystop :: int
  fileuuid :: string
  usermeta :: string

text \<open>
  Modelled from the spec: \<^verbatim>\<open>WorkItem.__len__\<close> is declared in \<^verbatim>\<open>executor.py\<close>, which is
  not among the sources; the spec gives the size of a work item as
  \<^verbatim>\<open>range_stop - range_start\<close>.
\<close>

definition len_item :: "work_item \<Rightarrow> int" where
  "len_item w = entrystop w - entrystart w"

text \<open>
  What the backend fills in when a task resolves: its result code and return status,
  the measured wall time (\<^verbatim>\<open>cmd_execution_time\<close>, in microseconds) and memory, and the
  size of its output file, which \<^verbatim>\<open>CoffeaWQ.wait\<close> stores as \<^verbatim>\<open>fout_size\<close>. Of the
  result codes the source tells apart 0 (success) and
  \<^verbatim>\<open>WORK_QUEUE_RESULT_RESOURCE_EXHAUSTION\<close>.
\<close>

datatype wq_result =
    WORK_QUEUE_RESULT_SUCCESS
  | WORK_QUEUE_RESULT_RESOURCE_EXHAUSTION
  | WORK_QUEUE_RESULT_OTHER

record resolution =
  result :: wq_result
  return_status :: int
  cmd_execution_time :: int
  measured_memory :: int
  fout_size :: real

text \<open>
  The three task classes. A task object carries its retry counter, its resolution once
  the backend returned it, and its input: one work item, or the tasks whose outputs
  an accumulation task merges. Item identifiers, file names and the vendor task's
  input/output declarations serve logging and staging and are left out.
\<close>

datatype task =
    PreProcCoffeaWQTask (retries_to_go: int) (resolved: "resolution option") (item: work_item)
  | ProcCoffeaWQTask (retries_to_go: int) (resolved: "resolution option") (item: work_item)
  | AccumCoffeaWQTask (retries_to_go: int) (resolved: "resolution option")
      (tasks_to_accumulate: "task list")

text \<open>
  \<^verbatim>\<open>self.size\<close>, which \<^verbatim>\<open>__len__\<close> returns: 1 for preprocessing, \<^verbatim>\<open>len(item)\<close> for
  processing, \<^verbatim>\<open>sum(len(t) for t in self.tasks_to_accumulate)\<close> for accumulation.
\<close>

fun len_task :: "task \<Rightarrow> int" where
  "len_task (PreProcCoffeaWQTask _ _ _) = 1"
| "len_task (ProcCoffeaWQTask _ _ w) = len_item w"
| "len_task (AccumCoffeaWQTask _ _ ts) = sum_list (map len_task ts)"

fun set_retries_to_go :: "int \<Rightarrow> task \<Rightarrow> task" where
  "set_retries_to_go n (PreProcCoffeaWQTask _ r w) = PreProcCoffeaWQTask n r w"
| "set_retries_to_go n (ProcCoffeaWQTask _ r w) = ProcCoffeaWQTask n r w"
| "set_retries_to_go n (AccumCoffeaWQTask _ r ts) = AccumCoffeaWQTask n r ts"

text \<open>
  \<^verbatim>\<open>self.result == wq.WORK_QUEUE_RESULT_RESOURCE_EXHAUSTION\<close>, on the result code the
  backend has set.
\<close>

definition exhausted :: "task \<Rightarrow> bool" where
  "exhausted t =
     (case resolved t of
        None \<Rightarrow> False
      | Some r \<Rightarrow> result r = WORK_QUEUE_RESULT_RESOURCE_EXHAUSTION)"

text \<open>The options of the executor that the scheduler reads.\<close>

record executor =
  retries :: int
  split_on_exhaustion :: bool
  chunksize :: int
  dynamic_chunksize :: resource_targets
  chunks_per_accum :: int
  chunks_accum_in_mem :: int
  environment_file :: "string option"
  compression :: "int option"

text \<open>
  \<^verbatim>\<open>
  class Stats(dict):
      def inc(self, stat, delta=1):
          try:
              self[stat] += delta
          except KeyError:
              self[stat] = delta
      def min(self, stat, value):
          try:
              self[stat] = min(self[stat], value)
          except KeyError:
              self[stat] = value
  \<close>
\<close>

type_synonym stats = "string \<rightharpoonup> int"

definition stats_inc :: "string \<Rightarrow> stats \<Rightarrow> stats" where
  "stats_inc stat s = (case s stat of None \<Rightarrow> s(stat \<mapsto> 1) | Some v \<Rightarrow> s(stat \<mapsto> v + 1))"

definition stats_min :: "string \<Rightarrow> int \<Rightarrow> stats \<Rightarrow> stats" where
  "stats_min stat v s = (case s stat of None \<Rightarrow> s(stat \<mapsto> v) | Some u \<Rightarrow> s(stat \<mapsto> min u v))"

text \<open>
  The queue: the executor it was built for, the latest chunk size handed to the item
  source, the statistics, and \<open>submitted\<close>, every task given to the backend's
  \<^verbatim>\<open>submit\<close>, oldest first.
\<close>

record queue =
  executor :: executor
  current_chunksize :: int
  stats_coffea :: stats
  submitted :: "task list"

definition submit :: "task \<Rightarrow> queue \<Rightarrow> queue" where
  "submit t q = q\<lparr>submitted := submitted q @ [t]\<rparr>"

subsection \<open>Constructors\<close>

text \<open>
  \<^verbatim>\<open>
  class CoffeaWQTask(Task):
      def __init__(self, queue, fn_wrapper, infile_function, item_args, itemid, tmpdir):
          ...
          executor = queue.executor
          self.retries_to_go = executor.retries
          ...
  \<close>
  The base constructor has six parameters after \<^verbatim>\<open>self\<close>, none with a default. A call
  is modelled with the list of the argument expressions it is written with: Python
  binds them to the parameters before the body runs, and raises TypeError when
  their number differs. Of the body the model keeps the retry counter.
\<close>

definition CoffeaWQTask_parameters :: "string list" where
  "CoffeaWQTask_parameters =
     [''queue'', ''fn_wrapper'', ''infile_function'', ''item_args'', ''itemid'', ''tmpdir'']"

definition CoffeaWQTask_init :: "string list \<Rightarrow> queue \<Rightarrow> task \<Rightarrow> error + task" where
  "CoffeaWQTask_init arguments q self =
     (if length arguments < length CoffeaWQTask_parameters
      then Inl (TypeError ''__init__() missing required positional arguments'')
      else if length CoffeaWQTask_parameters < length arguments
      then Inl (TypeError ''__init__() takes 7 positional arguments but more were given'')
      else Inr (set_retries_to_go (retries (executor q)) self))"

text \<open>
  \<^verbatim>\<open>
  class PreProcCoffeaWQTask(CoffeaWQTask):
      def __init__(self, queue, infile_function, item, tmpdir, itemid=None):
          if not itemid:
              itemid = "pre_{}".format(CoffeaWQTask.tasks_counter)
          self.item = item
          self.size = 1
          super().__init__(queue, infile_function, [item], itemid, tmpdir)
          ...

  class ProcCoffeaWQTask(CoffeaWQTask):
      def __init__(self, queue, infile_function, item, tmpdir, itemid=None):
          self.size = len(item)
          if not itemid:
              itemid = "p_{}".format(CoffeaWQTask.tasks_counter)
          self.item = item
          super().__init__(queue, infile_function, [item], itemid, tmpdir)
          ...
  \<close>
\<close>

definition PreProcCoffeaWQTask_init :: "queue \<Rightarrow> work_item \<Rightarrow> error + task" where
  "PreProcCoffeaWQTask_init q w =
     CoffeaWQTask_init [''queue'', ''infile_function'', ''[item]'', ''itemid'', ''tmpdir''] q
       (PreProcCoffeaWQTask 0 None w)"

definition ProcCoffeaWQTask_init :: "queue \<Rightarrow> work_item \<Rightarrow> error + task" where
  "ProcCoffeaWQTask_init q w =
     (case py_len (len_item w) of
        Inl e \<Rightarrow> Inl e
      | Inr _ \<Rightarrow>
          CoffeaWQTask_init [''queue'', ''infile_function'', ''[item]'', ''itemid'', ''tmpdir''] q
            (ProcCoffeaWQTask 0 None w))"

text \<open>
  \<^verbatim>\<open>
  class AccumCoffeaWQTask(CoffeaWQTask):
      def __init__(self, queue, infile_function, tasks_to_accumulate, tmpdir,
                   chunks_accum_in_mem, itemid=None):
          if not itemid:
              itemid = "accum_{}".format(CoffeaWQTask.tasks_counter)
          self.tasks_to_accumulate = tasks_to_accumulate
          self.size = sum(len(t) for t in self.tasks_to_accumulate)
          args = [chunks_accum_in_mem]
          args = args + [[basename(t.outfile_output) for t in self.tasks_to_accumulate]]
          super().__init__(queue, infile_function, args, itemid, tmpdir)
          ...
  \<close>
  The third argument, \<open>third\<close> below, is what the caller puts there: a list of tasks, or, from the
  caller that passes \<^verbatim>\<open>(executor, fn_wrapper, infile_function, next_to_accum, tmpdir)\<close>,
  the string \<^verbatim>\<open>infile_function\<close>. Iterating over a string yields its characters: each
  has length 1, and none has an attribute \<^verbatim>\<open>outfile_output\<close>.
\<close>

fun lens :: "task list \<Rightarrow> error + int list" where
  "lens [] = Inr []"
| "lens (t # ts) =
     (case py_len (len_task t) of
        Inl e \<Rightarrow> Inl e
      | Inr n \<Rightarrow> (case lens ts of Inl e \<Rightarrow> Inl e | Inr ns \<Rightarrow> Inr (n # ns)))"

definition AccumCoffeaWQTask_init :: "queue \<Rightarrow> string + task list \<Rightarrow> error + task" where
  "AccumCoffeaWQTask_init q third =
     (case third of
        Inl s \<Rightarrow>
          if s \<noteq> [] then Inl (AttributeError ''str object has no attribute outfile_output'')
          else CoffeaWQTask_init [''queue'', ''infile_function'', ''args'', ''itemid'', ''tmpdir''] q
                 (AccumCoffeaWQTask 0 None [])
      | Inr ts \<Rightarrow>
          (case lens ts of
             Inl e \<Rightarrow> Inl e
           | Inr _ \<Rightarrow>
               CoffeaWQTask_init [''queue'', ''infile_function'', ''args'', ''itemid'', ''tmpdir''] q
                 (AccumCoffeaWQTask 0 None ts)))"

subsection \<open>Clone, split and resubmit\<close>

text \<open>
  \<^verbatim>\<open>
  def clone(self, queue, tmpdir):                      # CoffeaWQTask
      raise NotImplementedError

  def clone(self, queue, tmpdir):                      # ProcCoffeaWQTask, PreProc alike
      return ProcCoffeaWQTask(queue, self.infile_function, self.item, tmpdir, self.itemid)

  def clone(self, queue, tmpdir):                      # AccumCoffeaWQTask
      return AccumCoffeaWQTask(queue, self.infile_function, self.tasks_to_accumulate,
                               tmpdir, self.itemid)
  \<close>
  Every task is of one of the three subclasses, each with its own \<^verbatim>\<open>clone\<close>.
\<close>

fun clone :: "queue \<Rightarrow> task \<Rightarrow> error + task" where
  "clone q (PreProcCoffeaWQTask _ _ w) = PreProcCoffeaWQTask_init q w"
| "clone q (ProcCoffeaWQTask _ _ w) = ProcCoffeaWQTask_init q w"
| "clone q (AccumCoffeaWQTask _ _ ts) = AccumCoffeaWQTask_init q (Inr ts)"

text \<open>
  \<^verbatim>\<open>
  def split(self, queue, tmpdir):                      # ProcCoffeaWQTask
      total = len(self.item)
      if total < 2:
          raise RuntimeError("processing task cannot be split any further.")
      # if the chunksize was updated to be less than total, then use that.
      # Otherwise, just partition the task in two.
      target_chunksize = queue.current_chunksize
      if total <= target_chunksize:
          target_chunksize = math.ceil(total / 2)
      n = max(math.ceil(total / target_chunksize), 1)
      actual_chunksize = int(math.ceil(total / n))
      queue.stats_coffea.inc("chunks_split")
      queue.stats_coffea.min("min_chunksize_after_split", actual_chunksize)
      splits = []
      start = self.item.entrystart
      while start < self.item.entrystop:
          stop = min(self.item.entrystop, start + actual_chunksize)
          w = WorkItem(self.item.dataset, self.item.filename, self.item.treename,
                       start, stop, self.item.fileuuid, self.item.usermeta)
          t = self.__class__(queue, self.infile_function, w, tmpdir)
          start = stop
          splits.append(t)
      return splits
  \<close>
  The \<^verbatim>\<open>while\<close> loop ends only if \<^verbatim>\<open>start\<close> advances, so it is a partial function:
  \<open>None\<close> stands for a loop that runs forever. The quotients are floats, rounded;
  \<^verbatim>\<open>math.ceil\<close> of a float is an int. The source's \<^verbatim>\<open>total\<close> is written \<open>total_len\<close>,
  since \<open>total\<close> is a constant of HOL.
\<close>

partial_function (option) split_loop ::
  "queue \<Rightarrow> work_item \<Rightarrow> int \<Rightarrow> int \<Rightarrow> task list \<Rightarrow> (error + task list) option" where
  "split_loop q it actual_chunksize start splits =
     (if start < entrystop it then
        (let stop = min (entrystop it) (start + actual_chunksize);
             w = it\<lparr>entrystart := start, entrystop := stop\<rparr>
         in case ProcCoffeaWQTask_init q w of
              Inl e \<Rightarrow> Some (Inl e)
            | Inr t \<Rightarrow> split_loop q it actual_chunksize stop (splits @ [t]))
      else Some (Inr splits))"

definition ceil_truediv :: "int \<Rightarrow> int \<Rightarrow> error + int" where
  "ceil_truediv a b = (case int_truediv a b of Inl e \<Rightarrow> Inl e | Inr y \<Rightarrow> Inr \<lceil>y\<rceil>)"

definition target_chunksize :: "queue \<Rightarrow> int \<Rightarrow> error + int" where
  "target_chunksize q total_len =
     (if total_len \<le> current_chunksize q then ceil_truediv total_len 2
      else Inr (current_chunksize q))"

definition actual_chunksize_of :: "queue \<Rightarrow> int \<Rightarrow> error + int" where
  "actual_chunksize_of q total_len =
     (case target_chunksize q total_len of
        Inl e \<Rightarrow> Inl e
      | Inr target \<Rightarrow>
          (case ceil_truediv total_len target of
             Inl e \<Rightarrow> Inl e
           | Inr m \<Rightarrow> ceil_truediv total_len (max m 1)))"

definition split_proc :: "queue \<Rightarrow> work_item \<Rightarrow> ((error + task list) \<times> queue) option" where
  "split_proc q it =
     (case py_len (len_item it) of
        Inl e \<Rightarrow> Some (Inl e, q)
      | Inr total_len \<Rightarrow>
          if total_len < 2
          then Some (Inl (RuntimeError ''processing task cannot be split any further.''), q)
          else
            case actual_chunksize_of q total_len of
              Inl e \<Rightarrow> Some (Inl e, q)
            | Inr actual_chunksize \<Rightarrow>
                (let q = q\<lparr>stats_coffea :=
                            stats_min ''min_chunksize_after_split'' actual_chunksize
                              (stats_inc ''chunks_split'' (stats_coffea q))\<rparr>
                 in map_option (\<lambda>splits. (splits, q))
                      (split_loop q it actual_chunksize (entrystart it) [])))"

text \<open>
  \<^verbatim>\<open>split\<close> of the base class, which preprocessing and accumulation tasks inherit:
  \<^verbatim>\<open>raise RuntimeError("task cannot be split any further.")\<close>.
\<close>

fun split :: "queue \<Rightarrow> task \<Rightarrow> ((error + task list) \<times> queue) option" where
  "split q (ProcCoffeaWQTask _ _ it) = split_proc q it"
| "split q _ = Some (Inl (RuntimeError ''task cannot be split any further.''), q)"

text \<open>
  \<^verbatim>\<open>
  def resubmit(self, queue, tmpdir):
      if self.retries_to_go < 1 or not queue.executor.split_on_exhaustion:
          raise RuntimeError(
              "item {} failed permanently. No more retries left.".format(self.itemid))
      resubmissions = []
      if self.result == wq.WORK_QUEUE_RESULT_RESOURCE_EXHAUSTION:
          queue.console("splitting {} to reduce resource consumption.", self.itemid)
          resubmissions = self.split(queue, tmpdir)
      else:
          t = self.clone(queue, tmpdir)
          t.retries_to_go = self.retries_to_go - 1
          resubmissions = [t]
      for t in resubmissions:
          queue.console(
              "resubmitting {} partly as {} with {} events. {} attempt(s) left.",
              self.itemid, t.itemid, len(t), t.retries_to_go)
          queue.submit(t)
  \<close>
  The outcome pairs what is raised, if anything, with the queue as the call leaves
  it: an exception keeps the effects that came before it.
\<close>

fun submit_all :: "queue \<Rightarrow> task list \<Rightarrow> (error + unit) \<times> queue" where
  "submit_all q [] = (Inr (), q)"
| "submit_all q (t # ts) =
     (case py_len (len_task t) of
        Inl e \<Rightarrow> (Inl e, q)
      | Inr _ \<Rightarrow> submit_all (submit t q) ts)"

definition resubmit :: "queue \<Rightarrow> task \<Rightarrow> ((error + unit) \<times> queue) option" where
  "resubmit q t =
     (if retries_to_go t < 1 \<or> \<not> split_on_exhaustion (executor q)
      then Some (Inl (RuntimeError ''item {} failed permanently. No more retries left.''), q)
      else
        case (if exhausted t then split q t
              else Some (case clone q t of
                           Inl e \<Rightarrow> Inl e
                         | Inr c \<Rightarrow> Inr [set_retries_to_go (retries_to_go t - 1) c], q)) of
          None \<Rightarrow> None
        | Some (Inl e, q) \<Rightarrow> Some (Inl e, q)
        | Some (Inr resubmissions, q) \<Rightarrow> Some (submit_all q resubmissions))"

subsection \<open>A configuration for concrete runs\<close>

definition example_executor :: executor where
  "example_executor =
     \<lparr>retries = 3, split_on_exhaustion = True, chunksize = 50, dynamic_chunksize = None,
      chunks_per_accum = 3, chunks_accum_in_mem = 2, environment_file = None,
      compression = Some 1\<rparr>"

definition example_queue :: queue where
  "example_queue =
     \<lparr>executor = example_executor, current_chunksize = 50, stats_coffea = Map.empty,
      submitted = []\<rparr>"

definition example_item :: "int \<Rightarrow> int \<Rightarrow> work_item" where
  "example_item start stop =
     \<lparr>dataset = ''dataset'', filename = ''events.root'', treename = ''Events'',
      entrystart = start, entrystop = stop, fileuuid = ''uuid'', usermeta = ''''\<rparr>"

definition failed_with :: "wq_result \<Rightarrow> resolution" where
  "failed_with r =
     \<lparr>result = r, return_status = 1, cmd_execution_time = 0, measured_memory = 0,
      fout_size = 0\<rparr>"

section \<open>Accumulation scheduler\<close>

text \<open>
  \<^verbatim>\<open>
  def _group_lst(lst, n):
      """Split the lst into sublists of len n."""
      return (lst[i : i + n] for i in range(0, len(lst), n))
  \<close>
  \<^verbatim>\<open>range\<close> raises ValueError for a step of 0 and is empty for a negative step.
\<close>

function chunks_of :: "nat \<Rightarrow> 'a list \<Rightarrow> 'a list list" where
  "chunks_of n lst = (if lst = [] \<or> n = 0 then [] else take n lst # chunks_of n (drop n lst))"
  by pat_completeness auto
termination
  by (relation "measure (\<lambda>(n, lst). length lst)") auto

declare chunks_of.simps [simp del]

definition group_lst :: "'a list \<Rightarrow> int \<Rightarrow> error + 'a list list" where
  "group_lst lst n =
     (if n = 0 then Inl (ValueError ''range() arg 3 must not be zero'')
      else if n < 0 then Inr []
      else Inr (chunks_of (nat n) lst))"

text \<open>
  \<^verbatim>\<open>
  def _submit_accum_tasks(executor, fn_wrapper, infile_function, tasks_to_accumulate,
                          force_last_accum, tmpdir):
      chunks_per_accum = executor.chunks_per_accum
      chunks_accum_in_mem = executor.chunks_accum_in_mem
      if chunks_per_accum < 2 or chunks_accum_in_mem < 2:
          raise RuntimeError("A minimum of two chunks should be used when accumulating")
      if len(tasks_to_accumulate) < 2 * chunks_per_accum - 1 and not force_last_accum:
          return tasks_to_accumulate
      tasks_to_accumulate.sort(key=lambda t: t.fout_size)
      for next_to_accum in _group_lst(tasks_to_accumulate, chunks_per_accum):
          # return immediately if not enough for a single accumulation
          if len(next_to_accum) < 2:
              return next_to_accum
          if len(next_to_accum) < chunks_per_accum and not force_last_accum:
              # not enough tasks for a chunks_per_accum, and not all events have
              # been processed.
              return next_to_accum
          accum_task = AccumCoffeaWQTask(
              executor, fn_wrapper, infile_function, next_to_accum, tmpdir)
          task_id = _wq_queue.submit(accum_task)
          _wq_queue.console(...)
      # if we get here all tasks in tasks_to_accumulate were included in an
      # accumulation.
      return []
  \<close>
  The queue \<open>q\<close> is the global \<^verbatim>\<open>_wq_queue\<close>, and \<open>executor q\<close> the executor the function
  is given. The constructor is called with five arguments for its parameters
  \<^verbatim>\<open>(queue, infile_function, tasks_to_accumulate, tmpdir, chunks_accum_in_mem)\<close>: the
  third, which the constructor iterates over, is the string \<^verbatim>\<open>infile_function\<close>, the
  name of the file that holds the pickled accumulation function. The pending tasks
  have all resolved, so each has its \<^verbatim>\<open>fout_size\<close>. Python's \<^verbatim>\<open>sort\<close> is stable, as
  \<open>sort_key\<close> is.
\<close>

definition fout_size_of :: "task \<Rightarrow> real" where
  "fout_size_of t = (case resolved t of None \<Rightarrow> 0 | Some r \<Rightarrow> fout_size r)"

fun submit_groups ::
  "queue \<Rightarrow> string \<Rightarrow> bool \<Rightarrow> task list list \<Rightarrow> (error + task list) \<times> queue" where
  "submit_groups q infile_function force_last_accum [] = (Inr [], q)"
| "submit_groups q infile_function force_last_accum (next_to_accum # groups) =
     (if length next_to_accum < 2 then (Inr next_to_accum, q)
      else if int (length next_to_accum) < chunks_per_accum (executor q) \<and> \<not> force_last_accum
      then (Inr next_to_accum, q)
      else
        case AccumCoffeaWQTask_init q (Inl infile_function) of
          Inl e \<Rightarrow> (Inl e, q)
        | Inr accum_task \<Rightarrow>
            submit_groups (submit accum_task q) infile_function force_last_accum groups)"

definition submit_accum_tasks ::
  "queue \<Rightarrow> string \<Rightarrow> task list \<Rightarrow> bool \<Rightarrow> (error + task list) \<times> queue" where
  "submit_accum_tasks q infile_function tasks force_last_accum =
     (if chunks_per_accum (executor q) < 2 \<or> chunks_accum_in_mem (executor q) < 2
      then (Inl (RuntimeError ''A minimum of two chunks should be used when accumulating''), q)
      else if int (length tasks) < 2 * chunks_per_accum (executor q) - 1 \<and> \<not> force_last_accum
      then (Inr tasks, q)
      else
        case group_lst (sort_key fout_size_of tasks) (chunks_per_accum (executor q)) of
          Inl e \<Rightarrow> (Inl e, q)
        | Inr groups \<Rightarrow> submit_groups q infile_function force_last_accum groups)"

text \<open>Resolved tasks for concrete runs: a success with a given output size.\<close>

definition done_with :: "real \<Rightarrow> resolution" where
  "done_with size_mb =
     \<lparr>result = WORK_QUEUE_RESULT_SUCCESS, return_status = 0, cmd_execution_time = 30000000,
      measured_memory = 500, fout_size = size_mb\<rparr>"

definition finished :: "real \<Rightarrow> int \<Rightarrow> int \<Rightarrow> task" where
  "finished size_mb start stop =
     ProcCoffeaWQTask 3 (Some (done_with size_mb)) (example_item start stop)"

section \<open>Entry point\<close>

text \<open>
  \<^verbatim>\<open>
  def _check_dynamic_chunksize_targets(targets):
      if targets:
          for k in targets:
              if k not in ["wall_time", "memory"]:
                  raise KeyError("dynamic chunksize resource {} is unknown.".format(k))
  \<close>
\<close>

definition check_dynamic_chunksize_targets :: "resource_targets \<Rightarrow> error + unit" where
  "check_dynamic_chunksize_targets targets =
     (case targets of
        None \<Rightarrow> Inr ()
      | Some m \<Rightarrow>
          if dom m \<subseteq> {''wall_time'', ''memory''} then Inr ()
          else Inl (KeyError ''dynamic chunksize resource {} is unknown.''))"

text \<open>
  \<^verbatim>\<open>
  def work_queue_main(executor, items, function, accumulator):
      global _wq_queue
      _check_dynamic_chunksize_targets(executor.dynamic_chunksize)
      if executor.environment_file and not executor.environment_file.wrapper:
          raise ValueError("Location of python_package_run could not be determined ...")
      if executor.compression is None:
          self.compression = 1
      function = _compression_wrapper(executor.compression, function)
      accumulate_fn = _compression_wrapper(executor.compression, accumulate_result_files)
      if _wq_queue is None:
          _wq_queue = CoffeaWQ(executor)
      _declare_resources(executor)
      # Working within a custom temporary directory:
      try:
          tmpdir_inst = tempfile.TemporaryDirectory(
              prefix="wq-executor-tmp-", dir=executor.filepath)
          tmpdir = tmpdir_inst.name
          infile_function = _function_to_file(
              function, prefix_name=executor.function_name, tmpdir=tmpdir)
          infile_accum_fn = _function_to_file(accumulate_fn, prefix_name="accum", tmpdir=tmpdir)
          if executor.custom_init:
              executor.custom_init(_wq_queue)
          if executor.desc == "Preprocessing":
              result = _work_queue_preprocessing(
                  items, accumulator, fn_wrapper, infile_function, tmpdir)
          else:
              result = _work_queue_processing(
                  items, accumulator, fn_wrapper, infile_function, infile_accum_fn, tmpdir)
              _wq_queue = None
      except Exception as e:
          _wq_queue = None
          raise e
      finally:
          tmpdir_inst.cleanup()
      return result
  \<close>
  \<^verbatim>\<open>executor.environment_file\<close> is a file name or \<^verbatim>\<open>None\<close>: a non-empty name is true, and
  a string has no attribute \<^verbatim>\<open>wrapper\<close>. The function has no name \<^verbatim>\<open>self\<close> and no name
  \<^verbatim>\<open>fn_wrapper\<close>, neither local nor global: reading or assigning through one raises
  NameError. Both calls of the last \<^verbatim>\<open>if\<close> read \<^verbatim>\<open>fn_wrapper\<close> as their third argument,
  before the call is made. What lies between, the set-up of the backend (the
  compression wrappers, the queue, its resources, the temporary directory and its
  function files, \<^verbatim>\<open>custom_init\<close>), is the parameter \<open>backend_setup\<close>: the exception it
  raises, if any.
\<close>

definition work_queue_main :: "(executor \<Rightarrow> error option) \<Rightarrow> executor \<Rightarrow> error + 'r" where
  "work_queue_main backend_setup ex =
     (case check_dynamic_chunksize_targets (dynamic_chunksize ex) of
        Inl e \<Rightarrow> Inl e
      | Inr _ \<Rightarrow>
          if environment_file ex \<noteq> None \<and> environment_file ex \<noteq> Some []
          then Inl (AttributeError ''str object has no attribute wrapper'')
          else if compression ex = None then Inl (NameError ''self'')
          else
            case backend_setup ex of
              Some e \<Rightarrow> Inl e
            | None \<Rightarrow> Inl (NameError ''fn_wrapper''))"

section \<open>Properties of the float arithmetic\<close>

lemma round_half_even_of_int [simp]: "round_half_even (of_int n) = n"
  by (simp add: round_half_even_def)

lemma floor_le_round_half_even: "\<lfloor>x\<rfloor> \<le> round_half_even x"
  by (simp add: round_half_even_def Let_def)

lemma round_half_even_le_floor: "round_half_even x \<le> \<lfloor>x\<rfloor> + 1"
  by (simp add: round_half_even_def Let_def)

lemma round_half_even_ge:
  assumes "of_int a \<le> x" shows "a \<le> round_half_even x"
proof -
  have "a \<le> \<lfloor>x\<rfloor>" using assms by (simp add: le_floor_iff)
  then show ?thesis using floor_le_round_half_even [of x] by linarith
qed

lemma round_half_even_le:
  assumes "x \<le> of_int b" shows "round_half_even x \<le> b"
proof (cases "x = of_int \<lfloor>x\<rfloor>")
  case True
  then have "round_half_even x = \<lfloor>x\<rfloor>" by (metis round_half_even_of_int)
  moreover have "\<lfloor>x\<rfloor> \<le> b" using assms by (simp add: floor_le_iff) 
  ultimately show ?thesis by simp
next
  case False
  then have "of_int \<lfloor>x\<rfloor> < x" using of_int_floor_le [of x] by linarith
  then have "of_int \<lfloor>x\<rfloor> < (of_int b :: real)" using assms by linarith
  then have "\<lfloor>x\<rfloor> + 1 \<le> b" by simp
  then show ?thesis using round_half_even_le_floor [of x] by linarith
qed

lemma double_zero [simp]: "double 0 = 0"
  by (simp add: double_def)

lemma double_exact:
  assumes x: "x = of_int m * 2 powr of_int k" and m: "\<bar>m\<bar> < 2 ^ 53" and k: "- 1074 \<le> k"
  shows "double x = x"
proof (cases "m = 0")
  case True
  then show ?thesis using x by simp
next
  case False
  then have x0: "x \<noteq> 0" using x by simp
  define L where "L = \<lfloor>log 2 \<bar>x\<bar>\<rfloor>"
  define e where "e = max L (- 1022) - 52"
  have absx: "\<bar>x\<bar> = of_int \<bar>m\<bar> * 2 powr of_int k"
    using x by (simp add: abs_mult)
  have "2 powr of_int L \<le> \<bar>x\<bar>"
    using floor_log_eq_powr_iff [of "\<bar>x\<bar>" 2 L] x0 by (simp add: L_def)
  also have "\<bar>x\<bar> < 2 ^ 53 * 2 powr of_int k"
    unfolding absx using m by (intro mult_strict_right_mono) (simp_all flip: of_int_less_iff [where 'a = real])
  also have "(2::real) ^ 53 * 2 powr of_int k = 2 powr of_int (53 + k)"
    by (simp add: powr_add powr_realpow [symmetric])
  finally have "L < 53 + k" by simp
  then have ek: "e \<le> k" using k by (simp add: e_def)
  have "x / 2 powr of_int e = of_int m * 2 powr of_int (k - e)"
    using x by (simp add: powr_diff)
  also have "2 powr of_int (k - e) = (2::real) ^ nat (k - e)"
    by (subst powr_int) (use ek in simp_all)
  also have "of_int m * (2::real) ^ nat (k - e) = of_int (m * 2 ^ nat (k - e))"
    by simp
  finally have "round_half_even (x / 2 powr of_int e) = m * 2 ^ nat (k - e)"
    by (simp only: round_half_even_of_int)
  then have "double x = of_int (m * 2 ^ nat (k - e)) * 2 powr of_int e"
    using x0 by (simp add: double_def Let_def L_def [symmetric] e_def [symmetric])
  also have "\<dots> = of_int m * (2 powr of_int (k - e) * 2 powr of_int e)"
    by (subst (2) powr_int) (use ek in simp_all)
  also have "\<dots> = x"
    unfolding powr_add [symmetric] using x by simp
  finally show ?thesis .
qed

lemma double_of_int:
  assumes "\<bar>n\<bar> < 2 ^ 53" shows "double (of_int n) = of_int n"
  using double_exact [of "of_int n" n 0] assms by simp

lemma double_pow2: "double (2 ^ n) = 2 ^ n"
  using double_exact [of "2 ^ n" 1 "int n"] by (simp add: powr_realpow)

lemma double_bounds:
  assumes x: "0 < x" and e: "e = max \<lfloor>log 2 x\<rfloor> (- 1022) - 52"
     and a: "of_int a * 2 powr of_int e \<le> x" and b: "x \<le> of_int b * 2 powr of_int e"
  shows "of_int a * 2 powr of_int e \<le> double x \<and> double x \<le> of_int b * 2 powr of_int e"
proof -
  have g: "(0::real) < 2 powr of_int e" by simp
  have d: "double x = of_int (round_half_even (x / 2 powr of_int e)) * 2 powr of_int e"
    using x e by (simp add: double_def Let_def)
  have "of_int a \<le> x / 2 powr of_int e" using a g by (simp add: pos_le_divide_eq)
  then have 1: "a \<le> round_half_even (x / 2 powr of_int e)" by (rule round_half_even_ge)
  have "x / 2 powr of_int e \<le> of_int b" using b g by (simp add: pos_divide_le_eq)
  then have 2: "round_half_even (x / 2 powr of_int e) \<le> b" by (rule round_half_even_le)
  show ?thesis unfolding d using 1 2 g by (simp add: mult_right_mono)
qed

lemma double_maxsize: "double (2 ^ 63 - 1) = 2 ^ 63"
proof -
  have L: "\<lfloor>log 2 (2 ^ 63 - 1 :: real)\<rfloor> = 62"
    by (subst floor_log_eq_powr_iff) (simp_all add: powr_int)
  have r: "round_half_even ((2 ^ 63 - 1) / 2 ^ 10) = 2 ^ 53"
    by (simp add: round_half_even_def Let_def)
  have nz: "(2 ^ 63 - 1 :: real) \<noteq> 0" by simp
  have "double (2 ^ 63 - 1) = of_int (round_half_even ((2 ^ 63 - 1) / 2 ^ 10)) * 2 ^ 10"
    unfolding double_def using nz L by (simp add: Let_def powr_int del: power_numeral)
  then show ?thesis unfolding r by simp
qed

lemma round_half_even_numeral [simp]: "round_half_even (numeral k) = numeral k"
  using round_half_even_of_int [of "numeral k"] by simp

lemma round_half_even_one [simp]: "round_half_even 1 = 1"
  using round_half_even_of_int [of 1] by simp

lemma round_half_even_zero [simp]: "round_half_even 0 = 0"
  using round_half_even_of_int [of 0] by simp

lemma double_numeral:
  assumes "(numeral k :: int) < 2 ^ 53"
  shows "double (numeral k) = numeral k" "double (- numeral k) = - numeral k"
  using double_of_int [of "numeral k"] double_of_int [of "- numeral k"] assms by simp_all

lemma double_one [simp]: "double 1 = 1"
  using double_of_int [of 1] by simp

lemma double_dyadic:
  assumes "\<bar>m\<bar> < 2 ^ 53" "j \<le> 1074"
  shows "double (of_int m / 2 ^ j) = of_int m / 2 ^ j"
proof -
  have "2 powr of_int (- int j) = 1 / (2::real) ^ j"
    by (simp add: powr_minus powr_realpow inverse_eq_divide)
  then have "of_int m / (2::real) ^ j = of_int m * 2 powr of_int (- int j)"
    by simp
  then show ?thesis
    using double_exact [of "of_int m / 2 ^ j" m "- int j"] assms by simp
qed

lemma double_nonneg:
  assumes "0 \<le> x" shows "0 \<le> double x"
proof (cases "x = 0")
  case False
  have "0 \<le> round_half_even (x / 2 powr of_int (max \<lfloor>log 2 \<bar>x\<bar>\<rfloor> (- 1022) - 52))"
    by (rule round_half_even_ge) (use assms in simp)
  then show ?thesis using False by (simp add: double_def Let_def)
qed simp

lemma round_half_even_eq:
  assumes "of_int n - 1/2 < x" "x < of_int n + 1/2"
  shows "round_half_even x = n"
proof (cases "of_int n \<le> x")
  case True
  then have "\<lfloor>x\<rfloor> = n" using assms by (simp add: floor_eq_iff)
  then show ?thesis using assms by (simp add: round_half_even_def Let_def)
next
  case False
  then have "\<lfloor>x\<rfloor> = n - 1" using assms by (simp add: floor_eq_iff)
  then show ?thesis using assms False by (simp add: round_half_even_def Let_def)
qed

lemma floor_double_between:
  fixes k :: int and j :: nat
  assumes k: "of_int k \<le> y" and u: "y \<le> of_int k + 3/4"
    and j: "2 ^ j \<le> k" "k < 2 ^ (j + 1)" and j50: "j \<le> 50"
  shows "\<lfloor>double y\<rfloor> = k"
proof -
  have k1: "1 \<le> k" using j(1) one_le_power [of "2::int" j] by linarith
  then have y0: "0 < y" using k by linarith
  have "(2::real) ^ j \<le> of_int k" using j(1) by (metis of_int_le_iff of_int_numeral of_int_power)
  moreover have pj: "2 powr of_int (int j) = (2::real) ^ j" by (simp add: powr_realpow)
  ultimately have lo: "2 powr of_int (int j) \<le> y" using k by linarith
  have "k + 1 \<le> 2 ^ (j + 1)" using j(2) by simp
  then have "of_int (k + 1) \<le> (2::real) ^ (j + 1)"
    by (metis of_int_le_iff of_int_numeral of_int_power)
  moreover have "2 powr of_int (int j + 1) = (2::real) ^ (j + 1)"
    by (simp add: powr_realpow powr_add)
  moreover have "of_int (k + 1) = (of_int k :: real) + 1" by simp
  ultimately have hi: "y < 2 powr of_int (int j + 1)"
    using u by linarith
  have L: "\<lfloor>log 2 y\<rfloor> = int j"
    using floor_log_eq_powr_iff [of y 2 "int j"] y0 lo hi by simp
  define e where "e = int j - 52"
  have e: "e = max \<lfloor>log 2 y\<rfloor> (- 1022) - 52" by (simp add: L e_def)
  have pe: "2 powr of_int e = (2::real) ^ j / 2 ^ 52"
    by (simp add: e_def powr_diff powr_realpow)
  have split52: "(2::real) ^ (52 - j) * 2 ^ j = 2 ^ 52"
    using j50 by (simp flip: power_add)
  have split50: "(2::real) ^ (50 - j) * 2 ^ j = 2 ^ 50"
    using j50 by (simp flip: power_add)
  have a: "real_of_int (k * 2 ^ (52 - j)) * 2 powr of_int e = real_of_int k"
  proof -
    have "real_of_int (k * 2 ^ (52 - j)) * 2 powr of_int e
          = real_of_int k * ((2::real) ^ (52 - j) * 2 ^ j) / 2 ^ 52"
      by (simp add: pe)
    then show ?thesis unfolding split52 by simp
  qed
  have b: "real_of_int ((4 * k + 3) * 2 ^ (50 - j)) * 2 powr of_int e = real_of_int k + 3/4"
  proof -
    have "real_of_int ((4 * k + 3) * 2 ^ (50 - j)) * 2 powr of_int e
          = (4 * real_of_int k + 3) * ((2::real) ^ (50 - j) * 2 ^ j) / 2 ^ 52"
      by (simp add: pe)
    then show ?thesis unfolding split50 by (simp add: field_simps)
  qed
  have "of_int (k * 2 ^ (52 - j)) * 2 powr of_int e \<le> double y
      \<and> double y \<le> of_int ((4 * k + 3) * 2 ^ (50 - j)) * 2 powr of_int e"
    by (rule double_bounds [OF y0 e]) (use k u in \<open>simp_all only: a b\<close>)
  then have "of_int k \<le> double y" "double y \<le> of_int k + 3/4"
    unfolding a b by simp_all
  then show ?thesis by (simp add: floor_eq_iff)
qed

lemma floor_double_log2:
  fixes n k j :: nat
  assumes "2 ^ k \<le> n" "n ^ 4 \<le> 2 ^ (4 * k + 3)" "2 ^ j \<le> k" "k < 2 ^ (j + 1)" "j \<le> 50"
  shows "\<lfloor>double (log 2 (real n))\<rfloor> = int k"
proof -
  have n0: "0 < n" using assms(1) by (metis gr0I not_le power_eq_0_iff zero_less_numeral zero_less_power)
  have lo: "real k \<le> log 2 (real n)" using assms(1) by (rule le_log2_of_power)
  have "log 2 (real (n ^ 4)) \<le> real (4 * k + 3)"
    using assms(2) n0 by (intro log2_of_power_le) simp_all
  then have "4 * log 2 (real n) \<le> 4 * real k + 3"
    by (simp add: log_nat_power)
  then have hi: "log 2 (real n) \<le> real k + 3/4" by simp
  show ?thesis
    by (rule floor_double_between [where j = j])
       (use lo hi assms(3,4,5) in \<open>simp_all flip: of_nat_le_iff of_nat_less_iff [where 'a = int]\<close>)
qed

lemma floor_double_log2_100: "\<lfloor>double (log 2 100)\<rfloor> = 6"
  using floor_double_log2 [of 6 100 2] by simp

lemma ln2_lower: "7/12 \<le> ln (2::real)"
proof -
  have a: "ln (1 - 1/4 :: real) \<le> - (1/4)" by (rule ln_one_minus_pos_upper_bound) simp_all
  have b: "ln (1 - 1/3 :: real) \<le> - (1/3)" by (rule ln_one_minus_pos_upper_bound) simp_all
  have "ln (1/2 :: real) = ln ((1 - 1/4) * (1 - 1/3))" by simp
  also have "\<dots> = ln (1 - 1/4 :: real) + ln (1 - 1/3)" by (subst ln_mult) simp_all
  finally have "ln (1/2 :: real) \<le> - (7/12)" using a b by simp
  moreover have "ln (1/2 :: real) = - ln 2" by (simp add: ln_div)
  ultimately show ?thesis by simp
qed

lemma log2_below_pow2:
  fixes d :: real
  assumes d: "0 < d" "d \<le> 1/16"
  shows "- (2 * d) < log 2 (1 - d)" "log 2 (1 - d) < 0"
proof -
  have l2: "0 < ln (2::real)" by simp
  have "- d - 2 * d\<^sup>2 \<le> ln (1 - d)"
    by (rule ln_one_minus_pos_lower_bound) (use d in simp_all)
  moreover have "d + 2 * d\<^sup>2 < 2 * d * (7/12)"
  proof -
    have "d * d \<le> d * (1/16)" using d by (intro mult_left_mono) simp_all
    then show ?thesis using d by (simp add: power2_eq_square)
  qed
  moreover have "2 * d * (7/12) \<le> 2 * d * ln 2"
    using ln2_lower d by (intro mult_left_mono) simp_all
  ultimately have "- (2 * d) * ln 2 < ln (1 - d)" by simp
  then show "- (2 * d) < log 2 (1 - d)"
    using l2 by (simp add: log_def pos_less_divide_eq)
  have "ln (1 - d) < 0" using d by simp
  then show "log 2 (1 - d) < 0" using l2 by (simp add: log_def divide_neg_pos)
qed

lemma log2_pred_8:
  "3 - 1 / 2 ^ 52 < log 2 (8 - 1 / 2 ^ 50)" "log 2 (8 - 1 / 2 ^ 50) < 3"
proof -
  have "(8 - 1 / 2 ^ 50 :: real) = 2 ^ 3 * (1 - 1 / 2 ^ 53)" by simp
  moreover have "log 2 (2 ^ 3 * (1 - 1 / 2 ^ 53)) = log 2 (2 ^ 3) + log 2 (1 - 1 / 2 ^ 53)"
    by (rule log_mult_pos) simp_all
  moreover have "log 2 ((2::real) ^ 3) = 3" by (subst log_pow_cancel) simp_all
  ultimately have "log 2 (8 - 1 / 2 ^ 50) = 3 + log 2 (1 - 1 / 2 ^ 53)"
    by (simp only:)
  with log2_below_pow2 [of "1 / 2 ^ 53"]
  show "3 - 1 / 2 ^ 52 < log 2 (8 - 1 / 2 ^ 50)" "log 2 (8 - 1 / 2 ^ 50) < 3"
    by simp_all
qed

lemma double_log2_pred_8: "double (log 2 (8 - 1 / 2 ^ 50)) = 3"
proof -
  define y :: real where "y = log 2 (8 - 1 / 2 ^ 50)"
  have b: "3 - 1 / 2 ^ 52 < y" "y < 3" using log2_pred_8 by (simp_all add: y_def)
  then have y0: "y \<noteq> 0" "0 < y" by simp_all
  have L: "\<lfloor>log 2 y\<rfloor> = 1"
    using floor_log_eq_powr_iff [of y 2 1] b by simp
  have "round_half_even (y * 2 ^ 51) = 3 * 2 ^ 51"
    by (rule round_half_even_eq) (use b in \<open>simp_all add: field_simps\<close>)
  then have "double y = of_int (3 * 2 ^ 51) / 2 ^ 51"
    using y0 L by (simp add: double_def Let_def powr_int field_simps del: power_numeral)
  then show ?thesis by (simp add: y_def)
qed

lemma double_le_pow2:
  assumes x: "0 < x" and m: "x \<le> 2 ^ m"
  shows "double x \<le> 2 ^ m"
proof -
  define e where "e = max \<lfloor>log 2 x\<rfloor> (- 1022) - 52"
  have "log 2 x \<le> log 2 (2 ^ m)" using x m by (intro log_mono) simp_all
  moreover have "log 2 ((2::real) ^ m) = real m" by (subst log_pow_cancel) simp_all
  ultimately have "log 2 x \<le> real m" by simp
  then have "\<lfloor>log 2 x\<rfloor> \<le> int m" by (simp add: floor_le_iff)
  then have em: "e \<le> int m" by (simp add: e_def)
  have "2 powr of_int (int m - e) = (2::real) ^ nat (int m - e)"
    by (subst powr_int) (use em in simp_all)
  moreover have "2 powr of_int (int m - e) * 2 powr of_int e = (2::real) ^ m"
    by (simp add: powr_realpow flip: powr_add)
  ultimately have b: "of_int (2 ^ nat (int m - e)) * 2 powr of_int e = (2::real) ^ m"
    by simp
  have "of_int 0 * 2 powr of_int e \<le> double x
      \<and> double x \<le> of_int (2 ^ nat (int m - e)) * 2 powr of_int e"
    by (rule double_bounds [OF x e_def]) (use x m b in simp_all)
  then show ?thesis unfolding b by simp
qed

lemma double_ge_one:
  assumes "1 \<le> x"
  shows "1 \<le> double x"
proof -
  have x: "0 < x" using assms by simp
  define L where "L = \<lfloor>log 2 x\<rfloor>"
  define e where "e = max L (- 1022) - 52"
  have L0: "0 \<le> L" using assms by (simp add: L_def)
  then have e: "e = L - 52" by (simp add: e_def)
  have e': "e = max \<lfloor>log 2 x\<rfloor> (- 1022) - 52" by (simp add: e_def L_def)
  have lo: "2 powr of_int L \<le> x"
    using floor_log_eq_powr_iff [of x 2 L] x by (simp add: L_def)
  show ?thesis
  proof (cases "e \<le> 0")
    case True
    have "2 powr of_int (- e) = (2::real) ^ nat (- e)"
      by (subst powr_int) (use True in simp_all)
    then have a: "of_int (2 ^ nat (- e)) * 2 powr of_int e = (1::real)"
      by (simp add: powr_minus field_simps)
    have "of_int (2 ^ nat (- e)) * 2 powr of_int e \<le> double x
        \<and> double x \<le> of_int \<lceil>x / 2 powr of_int e\<rceil> * 2 powr of_int e"
      by (rule double_bounds [OF x e']) (use assms a in \<open>simp_all add: pos_divide_le_eq [symmetric]\<close>)
    then show ?thesis unfolding a by simp
  next
    case False
    have "(2::real) powr of_int e \<le> 2 powr of_int L" by (simp add: e)
    then have "2 powr of_int e \<le> x" using lo by (rule order_trans)
    then have a: "of_int 1 * 2 powr of_int e \<le> x" by simp
    have "of_int 1 * 2 powr of_int e \<le> double x
        \<and> double x \<le> of_int \<lceil>x / 2 powr of_int e\<rceil> * 2 powr of_int e"
      by (rule double_bounds [OF x e' a]) (simp add: pos_divide_le_eq [symmetric])
    moreover have "(1::real) \<le> 2 powr of_int e"
      using False by (simp add: ge_one_powr_ge_zero)
    ultimately show ?thesis by simp
  qed
qed
section \<open>Properties of the estimator\<close>

lemma to_float_exact:
  assumes "double x = x" "\<bar>x\<bar> < 2 ^ 1024"
  shows "to_float x = Finite x"
  using assms by (simp add: to_float_def Let_def abs_less_iff)

lemma estimates_none:
  assumes "resource_targets = None \<or> length task_reports < 2"
  shows "estimates lib resource_targets task_reports = Inr (None, None)"
  using assms by (auto simp: estimates_def split: option.splits)

lemma compute_chunksize_base:
  assumes "resource_targets = None \<or> length task_reports < 2"
  shows "compute_chunksize lib base_chunksize resource_targets task_reports
           = floored lib base_chunksize (PyInt base_chunksize)"
  using estimates_none [OF assms] by (simp add: compute_chunksize_def candidate_sizes_def)

lemma floored_below_one:
  assumes "base_chunksize < 1"
  shows "floored lib b (PyInt base_chunksize) = Inr 1"
  using assms by (simp add: floored_def floor_to_pow2_def num_lt_def py_int_def)

lemma floored_log2:
  assumes "1 \<le> base_chunksize" "math_log2 lib (PyInt base_chunksize) = Inr (Finite l)" "0 \<le> l"
  shows "floored lib b (PyInt base_chunksize) = Inr (2 ^ nat \<lfloor>l\<rfloor>)"
  using assms
  by (simp add: floored_def floor_to_pow2_def num_lt_def py_int_def math_floor_def pow2_def)

lemma log2_rounded_pow2:
  assumes "k < 2 ^ 53"
  shows "log2_rounded (PyInt (2 ^ k)) = Inr (Finite (real k))"
proof -
  have "double (log 2 (double (of_int (2 ^ k)))) = double (real k)"
    by (simp add: double_pow2)
  also have "\<dots> = real k"
    using double_of_int [of "int k"] assms by simp
  finally show ?thesis by (simp add: log2_rounded_def not_le)
qed

lemma floored_reference_pow2:
  assumes "k < 2 ^ 53"
  shows "floored reference b (PyInt (2 ^ k)) = Inr (2 ^ k)"
  using floored_log2 [of "2 ^ k" reference "real k" b] log2_rounded_pow2 [OF assms]
  by (simp add: reference_def)

lemma floored_reference_100: "floored reference b (PyInt 100) = Inr 64"
proof -
  have "math_log2 reference (PyInt 100) = Inr (Finite (double (log 2 100)))"
    by (simp add: reference_def log2_rounded_def double_numeral)
  moreover have "0 \<le> double (log 2 100)"
    by (rule double_nonneg) simp
  ultimately show ?thesis
    using floored_log2 [of 100 reference "double (log 2 100)" b]
    by (simp add: floor_double_log2_100)
qed

lemma floored_maxsize: "floored reference b (PyInt (2 ^ 63 - 1)) = Inr (2 ^ 63)"
proof -
  have "math_log2 reference (PyInt (2 ^ 63 - 1))
          = Inr (Finite (double (log 2 (double (2 ^ 63 - 1)))))"
    by (simp add: reference_def log2_rounded_def)
  also have "double (log 2 (double (2 ^ 63 - 1))) = 63"
  proof -
    have l: "log 2 ((2::real) ^ 63) = 63" by (subst log_pow_cancel) simp_all
    have d: "double 63 = 63" by (simp add: double_numeral)
    show ?thesis unfolding double_maxsize l d ..
  qed
  finally show ?thesis
    using floored_log2 [of "2 ^ 63 - 1" reference 63 b] by simp
qed

subsection \<open>C1: no estimate\<close>

text \<open>
  C1. The claim reads: when \<^verbatim>\<open>resource_targets\<close> is empty or there are fewer than 2
  samples, \<^verbatim>\<open>_compute_chunksize\<close> returns \<^verbatim>\<open>base_size\<close> unchanged. The source passes the
  base size through \<^verbatim>\<open>int(_floor_to_pow2(...))\<close> like any estimate. As amended: with
  \<^verbatim>\<open>resource_targets\<close> \<^verbatim>\<open>None\<close>, or fewer than 2 samples, the result is 1 for a base size
  below 1, and otherwise \<open>2 ^ \<lfloor>l\<rfloor>\<close> for the value \<open>l\<close> that \<^verbatim>\<open>math.log2\<close> returns on
  the base size; it is the base size only if that is a power of two, and with the
  rounded logarithm every power of two comes back as it is.
\<close>

theorem compute_chunksize_without_estimate:
  assumes "resource_targets = None \<or> length task_reports < 2"
  shows "(base_chunksize < 1 \<longrightarrow>
            compute_chunksize lib base_chunksize resource_targets task_reports = Inr 1)
       \<and> (\<forall>l. 1 \<le> base_chunksize \<and> math_log2 lib (PyInt base_chunksize) = Inr (Finite l) \<and> 0 \<le> l
              \<longrightarrow> compute_chunksize lib base_chunksize resource_targets task_reports
                    = Inr (2 ^ nat \<lfloor>l\<rfloor>)
                  \<and> (compute_chunksize lib base_chunksize resource_targets task_reports
                       = Inr base_chunksize \<longrightarrow> base_chunksize = 2 ^ nat \<lfloor>l\<rfloor>))
       \<and> (\<forall>k < 2 ^ 53. compute_chunksize reference (2 ^ k) resource_targets task_reports
              = Inr (2 ^ k))"
  using floored_below_one [of base_chunksize lib base_chunksize] floored_log2 [of base_chunksize lib _ base_chunksize]
    floored_reference_pow2
  by (auto simp: compute_chunksize_base [OF assms])

theorem compute_chunksize_without_estimate_witness:
  "((None :: resource_targets) = None \<or> length [(100, Finite 30, 500) :: task_report] < 2)
   \<and> compute_chunksize reference 0 None [(100, Finite 30, 500)] = Inr 1
   \<and> math_log2 reference (PyInt 100) = Inr (Finite (double (log 2 100)))
   \<and> \<lfloor>double (log 2 100)\<rfloor> = 6
   \<and> compute_chunksize reference 100 None [(100, Finite 30, 500)] = Inr (2 ^ 6)
   \<and> compute_chunksize reference 64 None [(100, Finite 30, 500)] = Inr 64"
proof -
  have h: "(None :: resource_targets) = None \<or> length [(100, Finite 30, 500) :: task_report] < 2"
    by simp
  have l: "math_log2 reference (PyInt 100) = Inr (Finite (double (log 2 100)))"
    by (simp add: reference_def log2_rounded_def double_numeral)
  have l0: "0 \<le> double (log 2 100)"
    by (rule double_nonneg) simp
  have a: "compute_chunksize reference 0 None [(100, Finite 30, 500)] = Inr 1"
    using compute_chunksize_without_estimate [OF h, of 0 reference] by simp
  have "compute_chunksize reference 100 None [(100, Finite 30, 500)]
          = Inr (2 ^ nat \<lfloor>double (log 2 100)\<rfloor>)"
    using compute_chunksize_without_estimate [OF h, of 100 reference] l l0 by simp
  then have b: "compute_chunksize reference 100 None [(100, Finite 30, 500)] = Inr (2 ^ 6)"
    by (simp add: floor_double_log2_100)
  have "\<forall>k < 2 ^ 53. compute_chunksize reference (2 ^ k) None [(100, Finite 30, 500)]
          = Inr (2 ^ k)"
    using compute_chunksize_without_estimate [OF h, of 0 reference] by blast
  moreover have "(6 :: nat) < 2 ^ 53" by simp
  ultimately have "compute_chunksize reference (2 ^ 6) None [(100, Finite 30, 500)] = Inr (2 ^ 6)"
    by blast
  then have c: "compute_chunksize reference 64 None [(100, Finite 30, 500)] = Inr 64"
    by simp
  show ?thesis using h l a b c by (simp add: floor_double_log2_100)
qed

theorem compute_chunksize_base_counterexample:
  "compute_chunksize reference 100 None [(100, Finite 30, 500)] = Inr 64
   \<and> (64 :: int) \<noteq> 100"
  by (simp add: compute_chunksize_base floored_reference_100)

subsection \<open>C5: the estimate from the samples\<close>







lemma py_min_in: "py_min c cs \<in> set (c # cs)"
proof -
  have "foldl (\<lambda>m x. if lt x m then x else m) c cs \<in> set (c # cs)"
    by (induction cs arbitrary: c) (simp, force)
  then show ?thesis by (simp add: py_min_def)
qed


lemma compute_chunksize_missing_memory:
  assumes "targets ''memory'' = None" "2 \<le> length task_reports"
    and "estimate_for lib (targets ''wall_time'')
           (map (\<lambda>(evs, time, mem). (PyFloat time, evs)) task_reports) = Inr chunksize_time"
  shows "compute_chunksize lib base_chunksize (Some targets) task_reports
           = Inl (KeyError ''memory'')"
  using assms by (simp add: compute_chunksize_def estimates_def)



subsubsection \<open>Five samples on a line\<close>














subsection \<open>C8: the floor to a power of two, and the sampling\<close>

lemma double_pred_8: "double (8 - 1 / 2 ^ 50) = 8 - 1 / 2 ^ 50"
proof -
  have "(8 - 1 / 2 ^ 50 :: real) = of_int (2 ^ 53 - 1) / 2 ^ 50" by simp
  then show ?thesis using double_dyadic [of "2 ^ 53 - 1" 50] by simp
qed

lemma floor_to_pow2_pred_8:
  "floor_to_pow2 reference (PyFloat (Finite (8 - 1 / 2 ^ 50))) = Inr (PyInt 8)"
proof -
  have "math_log2 reference (PyFloat (Finite (8 - 1 / 2 ^ 50)))
          = Inr (Finite (double (log 2 (double (8 - 1 / 2 ^ 50)))))"
    by (simp add: reference_def log2_rounded_def)
  also have "double (log 2 (double (8 - 1 / 2 ^ 50))) = 3"
    unfolding double_pred_8 by (rule double_log2_pred_8)
  finally show ?thesis
    by (simp add: floor_to_pow2_def num_lt_def math_floor_def pow2_def)
qed

lemma floor_to_pow2_maxsize:
  "floor_to_pow2 reference (PyInt (2 ^ 63 - 1)) = Inr (PyInt (2 ^ 63))"
proof -
  have l: "log 2 ((2::real) ^ 63) = 63" by (subst log_pow_cancel) simp_all
  have d: "double 63 = 63" by (simp add: double_numeral)
  have "double (log 2 (double (2 ^ 63 - 1))) = 63"
    unfolding double_maxsize l d ..
  then have "math_log2 reference (PyInt (2 ^ 63 - 1)) = Inr (Finite 63)"
    by (simp add: reference_def log2_rounded_def)
  then show ?thesis
    by (simp add: floor_to_pow2_def num_lt_def math_floor_def pow2_def)
qed

lemma choices_two:
  "choices [a, b] [90, 10] = [(a, 9/10), (b, 1/10)]"
  by (simp add: choices_def)

lemma sample_chunksize_pow2:
  assumes "k < 1024"
  shows "sample_chunksize (2 ^ k)
           = Inr [(2 ^ k, 9/10), (if k = 0 then 1 else 2 ^ (k - 1), 1/10)]"
proof (cases k)
  case 0
  have "double (1/2) = 1/2" using double_dyadic [of 1 1] by simp
  then show ?thesis using 0 by (simp add: sample_chunksize_def int_truediv_def choices_two)
next
  case (Suc j)
  have "(2::real) ^ j < 2 ^ 1024" using assms Suc by (intro power_strict_increasing) simp_all
  then have "int_truediv (2 ^ k) 2 = Inr (2 ^ j)"
    using Suc by (simp add: int_truediv_def double_pow2 Let_def del: power_numeral)
  moreover have "\<lfloor>(2::real) ^ j\<rfloor> = 2 ^ j"
    by (metis floor_of_int of_int_numeral of_int_power)
  moreover have "\<not> (2::real) ^ j < 1"
    by (simp add: not_less)
  ultimately show ?thesis
    using Suc by (simp add: sample_chunksize_def choices_two)
qed

text \<open>
  C8. The claim reads: the final chunk size is the largest power of two not above the
  computed value, 1 at least, and the size handed out is that value with probability
  90% or its half (1 at least) with probability 10%. \<^verbatim>\<open>_floor_to_pow2\<close> takes the
  exponent from \<^verbatim>\<open>math.floor(math.log2(value))\<close>, and the logarithm is a float: just
  below a power of two it rounds to the integer above. The double below 8,
  \<open>8 - 2\<^sup>-\<^sup>5\<^sup>0\<close>, which Python prints as 7.999999999999999 and which
  \<^verbatim>\<open>(8 / 49) * 49\<close> yields, is floored to 8, not to 4; the int \<open>2\<^sup>6\<^sup>3 - 1\<close>, which is
  \<^verbatim>\<open>sys.maxsize\<close>, is converted to the double \<open>2\<^sup>6\<^sup>3\<close> and floored to \<open>2\<^sup>6\<^sup>3\<close>, as a base
  size too. Both results are above the value. The sampling is as claimed on what the
  floor returns (lemma \<open>sample_chunksize_pow2\<close>).
\<close>

theorem floor_to_pow2_above_value:
  "floor_to_pow2 reference (PyFloat (Finite (8 - 1 / 2 ^ 50))) = Inr (PyInt 8)
   \<and> num_lt (PyFloat (Finite (8 - 1 / 2 ^ 50))) (PyInt 8)
   \<and> floor_to_pow2 reference (PyInt (2 ^ 63 - 1)) = Inr (PyInt (2 ^ 63))
   \<and> num_lt (PyInt (2 ^ 63 - 1)) (PyInt (2 ^ 63))
   \<and> compute_chunksize reference (2 ^ 63 - 1) None [] = Inr (2 ^ 63)"
proof -
  have "compute_chunksize reference (2 ^ 63 - 1) None [] = Inr (2 ^ 63)"
    using compute_chunksize_base [of None "[]" reference "2 ^ 63 - 1"]
      floored_maxsize [of "2 ^ 63 - 1"] by simp
  moreover have "num_lt (PyFloat (Finite (8 - 1 / 2 ^ 50))) (PyInt 8)"
    by (simp add: num_lt_def)
  moreover have "num_lt (PyInt (2 ^ 63 - 1)) (PyInt (2 ^ 63))"
    by (simp add: num_lt_def)
  ultimately show ?thesis
    using floor_to_pow2_pred_8 floor_to_pow2_maxsize by blast
qed

section \<open>Properties of the remote merge helper\<close>

lemma accumulate_loop_unbound:
  "accumulate_loop open_file decompress is_true accumulate (f # files) n in_memory accumulator None
     = (Inl (case open_file f of Some e \<Rightarrow> e | None \<Rightarrow> UnboundLocalError ''result_f''), [])"
  by (simp add: read_local_def Let_def split: option.splits)

subsection \<open>C6: what the merge holds in memory\<close>

text \<open>
  C6. The claim reads: during every call of \<^verbatim>\<open>accumulate_result_files\<close> at most
  \<^verbatim>\<open>chunks_accum_in_mem\<close> deserialized partial results are held in memory at any point,
  however many files are given, the further inputs being streamed through the merge.
  The loop is written to do so, but its statement
  \<^verbatim>\<open>result_f = _decompress(result_f)\<close> reads \<^verbatim>\<open>result_f\<close> where the open file \<^verbatim>\<open>rf\<close> is
  meant: on the first file taken, the last of the list, the name is unbound. Every
  call with a file to accumulate raises there, or in \<^verbatim>\<open>open\<close> before; no result is
  deserialized, none is put in memory, nothing is merged.
\<close>

theorem accumulate_result_files_raises:
  assumes "files_to_accumulate \<noteq> []"
  shows "accumulate_result_files open_file decompress is_true accumulate n_in_mem
           files_to_accumulate accumulator
         = Inl (case open_file (last files_to_accumulate) of
                  Some e \<Rightarrow> e
                | None \<Rightarrow> UnboundLocalError ''result_f'')
       \<and> in_memory_snapshots open_file decompress is_true accumulate n_in_mem
           files_to_accumulate accumulator = []"
proof -
  obtain f files where r: "rev files_to_accumulate = f # files"
    using assms by (cases "rev files_to_accumulate") auto
  then have "f = last files_to_accumulate"
    by (metis assms hd_rev list.sel(1))
  then show ?thesis
    by (simp add: accumulate_result_files_def in_memory_snapshots_def r accumulate_loop_unbound
        del: accumulate_loop.simps)
qed

theorem accumulate_result_files_raises_witness:
  "[''out_p_1.p'', ''out_p_2.p'', ''out_p_3.p''] \<noteq> []
   \<and> accumulate_result_files (\<lambda>f. None) Inr (\<lambda>r. r \<noteq> (0 :: nat)) (\<lambda>ms a. a + sum_list ms) 2
        [''out_p_1.p'', ''out_p_2.p'', ''out_p_3.p''] None
      = Inl (UnboundLocalError ''result_f'')
   \<and> in_memory_snapshots (\<lambda>f. None) Inr (\<lambda>r. r \<noteq> (0 :: nat)) (\<lambda>ms a. a + sum_list ms) 2
        [''out_p_1.p'', ''out_p_2.p'', ''out_p_3.p''] None = []"
  using accumulate_result_files_raises
    [of "[''out_p_1.p'', ''out_p_2.p'', ''out_p_3.p'']" "\<lambda>f. None" Inr "\<lambda>r. r \<noteq> (0 :: nat)"
       "\<lambda>ms a. a + sum_list ms" 2 None]
  by simp

subsection \<open>C10: no files to accumulate\<close>

text \<open>
  C10. With an empty list of files \<^verbatim>\<open>accumulate_result_files\<close> returns the accumulator
  it was given (\<^verbatim>\<open>None\<close>, the default, when none was), loads no file, merges nothing
  and does not raise.
\<close>

theorem accumulate_result_files_empty:
  "accumulate_result_files open_file decompress is_true accumulate n_in_mem [] accumulator
     = Inr accumulator
   \<and> accumulate_result_files open_file decompress is_true accumulate n_in_mem [] None = Inr None
   \<and> in_memory_snapshots open_file decompress is_true accumulate n_in_mem [] accumulator = []"
  by (simp add: accumulate_result_files_def in_memory_snapshots_def)

section \<open>Properties of splitting and resubmission\<close>

lemma ceil_truediv_pos:
  assumes a: "1 \<le> a" "a < 2 ^ 63" and b: "1 \<le> b"
  shows "\<exists>m. ceil_truediv a b = Inr m \<and> 0 \<le> m \<and> (b \<le> a \<longrightarrow> 1 \<le> m)"
proof -
  define x where "x = real_of_int a / real_of_int b"
  have x0: "0 < x" using a b by (simp add: x_def)
  have "x \<le> real_of_int a" using a b by (simp add: x_def field_simps mult_le_cancel_left1)
  also have "\<dots> \<le> 2 ^ 63" using a by (metis less_imp_le of_int_le_iff of_int_numeral of_int_power)
  finally have "double x \<le> 2 ^ 63" using x0 by (intro double_le_pow2)
  moreover have d0: "0 \<le> double x" using x0 by (intro double_nonneg) simp
  moreover have "(2::real) ^ 63 < 2 ^ 1024" by simp
  ultimately have small: "\<not> 2 ^ 1024 \<le> \<bar>double x\<bar>" by linarith
  have r: "ceil_truediv a b = Inr \<lceil>double x\<rceil>"
    using b small by (simp add: ceil_truediv_def int_truediv_def Let_def x_def)
  have "0 \<le> \<lceil>double x\<rceil>" using d0 by (simp add: ceiling_le_iff le_ceiling_iff)
  moreover have "1 \<le> \<lceil>double x\<rceil>" if "b \<le> a"
  proof -
    have "1 \<le> x" using that b by (simp add: x_def)
    then have "1 \<le> double x" by (rule double_ge_one)
    then show ?thesis by (simp add: le_ceiling_iff)
  qed
  ultimately show ?thesis using r by blast
qed

lemma py_len_ok: "0 \<le> n \<Longrightarrow> n < 2 ^ 63 \<Longrightarrow> py_len n = Inr n"
  by (simp add: py_len_def)

lemma CoffeaWQTask_init_five:
  "CoffeaWQTask_init [a, b, c, d, e] q self
     = Inl (TypeError ''__init__() missing required positional arguments'')"
  by (simp add: CoffeaWQTask_init_def CoffeaWQTask_parameters_def)

lemma ProcCoffeaWQTask_init_raises:
  "ProcCoffeaWQTask_init q w =
     Inl (case py_len (len_item w) of
            Inl e \<Rightarrow> e
          | Inr _ \<Rightarrow> TypeError ''__init__() missing required positional arguments'')"
  by (simp add: ProcCoffeaWQTask_init_def CoffeaWQTask_init_five split: sum.splits)

lemma AccumCoffeaWQTask_init_raises: "\<exists>e. AccumCoffeaWQTask_init q third = Inl e"
  by (simp add: AccumCoffeaWQTask_init_def CoffeaWQTask_init_five split: sum.splits)

lemma clone_raises: "\<exists>e. clone q t = Inl e"
  by (cases t)
     (simp_all add: ProcCoffeaWQTask_init_raises PreProcCoffeaWQTask_init_def
        CoffeaWQTask_init_five AccumCoffeaWQTask_init_raises)

lemma split_loop_first:
  assumes "start < entrystop it"
  shows "split_loop q it actual_chunksize start splits =
           Some (Inl (case py_len (min (entrystop it) (start + actual_chunksize) - start) of
                        Inl e \<Rightarrow> e
                      | Inr _ \<Rightarrow> TypeError ''__init__() missing required positional arguments''))"
  using assms
  by (subst split_loop.simps) (simp add: ProcCoffeaWQTask_init_raises len_item_def Let_def)

lemma split_raises_any: "\<exists>e q'. split q t = Some (Inl e, q') \<and> submitted q' = submitted q"
proof (cases t)
  case (ProcCoffeaWQTask r res it)
  show ?thesis
  proof (cases "py_len (len_item it)")
    case (Inl e)
    then show ?thesis using ProcCoffeaWQTask by (simp add: split_proc_def)
  next
    case (Inr total_len)
    then have tl: "total_len = len_item it" by (auto simp: py_len_def split: if_splits)
    show ?thesis
    proof (cases "total_len < 2")
      case True
      then show ?thesis using ProcCoffeaWQTask Inr by (simp add: split_proc_def)
    next
      case False
      then have "entrystart it < entrystop it" using tl by (simp add: len_item_def)
      then show ?thesis
        using ProcCoffeaWQTask Inr False
        by (cases "actual_chunksize_of q total_len") (simp_all add: split_proc_def split_loop_first)
    qed
  qed
qed simp_all

lemma actual_chunksize_of_pos:
  assumes "2 \<le> total_len" "total_len < 2 ^ 63" "1 \<le> current_chunksize q"
  shows "\<exists>a. actual_chunksize_of q total_len = Inr a \<and> 0 \<le> a"
proof -
  have t1: "1 \<le> total_len" using assms by simp
  obtain target where target: "target_chunksize q total_len = Inr target" "1 \<le> target"
  proof (cases "total_len \<le> current_chunksize q")
    case True
    obtain m where "ceil_truediv total_len 2 = Inr m" "1 \<le> m"
      using ceil_truediv_pos [OF t1 assms(2), of 2] assms(1) by auto
    then show ?thesis using True that by (simp add: target_chunksize_def)
  next
    case False
    then show ?thesis using assms(3) that by (simp add: target_chunksize_def)
  qed
  obtain m where m: "ceil_truediv total_len target = Inr m"
    using ceil_truediv_pos [OF t1 assms(2) target(2)] by auto
  obtain a where a: "ceil_truediv total_len (max m 1) = Inr a" "0 \<le> a"
    using ceil_truediv_pos [OF t1 assms(2), of "max m 1"] by auto
  show ?thesis using target m a by (simp add: actual_chunksize_of_def)
qed

lemma split_type_error:
  assumes "2 \<le> len_item it" "len_item it < 2 ^ 63" "1 \<le> current_chunksize q"
  shows "\<exists>a. actual_chunksize_of q (len_item it) = Inr a
      \<and> split q (ProcCoffeaWQTask r res it)
          = Some (Inl (TypeError ''__init__() missing required positional arguments''),
                  q\<lparr>stats_coffea := stats_min ''min_chunksize_after_split'' a
                                     (stats_inc ''chunks_split'' (stats_coffea q))\<rparr>)"
proof -
  obtain a where a: "actual_chunksize_of q (len_item it) = Inr a" "0 \<le> a"
    using actual_chunksize_of_pos [OF assms] by blast
  have len: "py_len (len_item it) = Inr (len_item it)"
    using assms by (intro py_len_ok) simp_all
  have start: "entrystart it < entrystop it" using assms(1) by (simp add: len_item_def)
  have "0 \<le> min (entrystop it) (entrystart it + a) - entrystart it"
    using start a(2) by simp
  moreover have "min (entrystop it) (entrystart it + a) - entrystart it < 2 ^ 63"
    using assms(2) by (simp add: len_item_def)
  ultimately have w: "py_len (min (entrystop it) (entrystart it + a) - entrystart it)
      = Inr (min (entrystop it) (entrystart it + a) - entrystart it)"
    by (rule py_len_ok)
  show ?thesis
    using a(1) len assms(1) start w
    by (intro exI [of _ a]) (simp add: split_proc_def split_loop_first)
qed

lemma actual_chunksize_example: "actual_chunksize_of example_queue 200 = Inr 50"
  by (simp add: actual_chunksize_of_def target_chunksize_def ceil_truediv_def int_truediv_def
      example_queue_def double_numeral Let_def)

subsection \<open>C2: the children of a split\<close>

text \<open>
  C2. The claim reads: a processing task of size \<open>S \<ge> 2\<close> with retry budget \<open>R\<close> that
  fails with resource exhaustion is split into \<open>n = \<lceil>S / target_chunksize\<rceil>\<close> children
  over contiguous sub-ranges of \<open>\<lceil>S / n\<rceil>\<close> events that sum to \<open>S\<close>, each with the budget
  \<open>R\<close>. \<^verbatim>\<open>split\<close> computes the sizes and counts the split in the statistics, but
  builds each child with \<^verbatim>\<open>self.__class__(queue, self.infile_function, w, tmpdir)\<close>, and
  \<^verbatim>\<open>ProcCoffeaWQTask.__init__\<close> calls the base constructor with five arguments for its
  six parameters. The first child raises TypeError; \<^verbatim>\<open>split\<close> returns no children for
  any task, and nothing is submitted. For a size from 2 up to \<^verbatim>\<open>sys.maxsize\<close> and a
  current chunk size of at least 1 the exception is that TypeError, raised after the
  two statistics have been updated.
\<close>

theorem split_raises:
  "(\<exists>e q'. split q t = Some (Inl e, q') \<and> submitted q' = submitted q)
   \<and> (2 \<le> len_item it \<and> len_item it < 2 ^ 63 \<and> 1 \<le> current_chunksize q \<longrightarrow>
        (\<exists>a. actual_chunksize_of q (len_item it) = Inr a
           \<and> split q (ProcCoffeaWQTask r res it)
               = Some (Inl (TypeError ''__init__() missing required positional arguments''),
                       q\<lparr>stats_coffea := stats_min ''min_chunksize_after_split'' a
                                          (stats_inc ''chunks_split'' (stats_coffea q))\<rparr>)))"
  using split_raises_any [of q t] split_type_error [of it q r res] by blast

theorem split_raises_witness:
  "2 \<le> len_item (example_item 0 200) \<and> len_item (example_item 0 200) < 2 ^ 63
   \<and> 1 \<le> current_chunksize example_queue
   \<and> actual_chunksize_of example_queue (len_item (example_item 0 200)) = Inr 50
   \<and> split example_queue
        (ProcCoffeaWQTask 3 (Some (failed_with WORK_QUEUE_RESULT_RESOURCE_EXHAUSTION))
           (example_item 0 200))
      = Some (Inl (TypeError ''__init__() missing required positional arguments''),
              example_queue\<lparr>stats_coffea :=
                [''chunks_split'' \<mapsto> 1, ''min_chunksize_after_split'' \<mapsto> 50]\<rparr>)"
proof -
  let ?t = "ProcCoffeaWQTask 3 (Some (failed_with WORK_QUEUE_RESULT_RESOURCE_EXHAUSTION))
              (example_item 0 200)"
  have h: "2 \<le> len_item (example_item 0 200) \<and> len_item (example_item 0 200) < 2 ^ 63
      \<and> 1 \<le> current_chunksize example_queue"
    by (simp add: len_item_def example_item_def example_queue_def)
  have a: "actual_chunksize_of example_queue (len_item (example_item 0 200)) = Inr 50"
    using actual_chunksize_example by (simp add: len_item_def example_item_def)
  from split_raises [of example_queue ?t "example_item 0 200" 3
      "Some (failed_with WORK_QUEUE_RESULT_RESOURCE_EXHAUSTION)"] h
  obtain a' where "actual_chunksize_of example_queue (len_item (example_item 0 200)) = Inr a'"
    and s: "split example_queue ?t
      = Some (Inl (TypeError ''__init__() missing required positional arguments''),
              example_queue\<lparr>stats_coffea := stats_min ''min_chunksize_after_split'' a'
                 (stats_inc ''chunks_split'' (stats_coffea example_queue))\<rparr>)"
    by blast
  with a have "a' = 50" by simp
  with s have "split example_queue ?t
      = Some (Inl (TypeError ''__init__() missing required positional arguments''),
              example_queue\<lparr>stats_coffea :=
                [''chunks_split'' \<mapsto> 1, ''min_chunksize_after_split'' \<mapsto> 50]\<rparr>)"
    by (simp add: example_queue_def stats_inc_def stats_min_def)
  with h a show ?thesis by simp
qed

subsection \<open>C9: no retries left\<close>

text \<open>
  C9. For every failed unit of size below 2 with no retries left (\<^verbatim>\<open>retries_to_go\<close>
  below 1), \<^verbatim>\<open>resubmit\<close> raises the permanent failure and attempts no split: the
  queue is left as it was, with nothing submitted and no split counted, and the
  exception is the one \<^verbatim>\<open>resubmit\<close> raises itself, not the one of \<^verbatim>\<open>split\<close>.
\<close>

theorem resubmit_without_retries:
  assumes "retries_to_go t < 1" and "len_task t < 2"
  shows "resubmit q t =
           Some (Inl (RuntimeError ''item {} failed permanently. No more retries left.''), q)"
  using assms by (simp add: resubmit_def)

theorem resubmit_without_retries_witness:
  "retries_to_go (ProcCoffeaWQTask 0 (Some (failed_with WORK_QUEUE_RESULT_RESOURCE_EXHAUSTION))
      (example_item 7 8)) < 1
   \<and> len_task (ProcCoffeaWQTask 0 (Some (failed_with WORK_QUEUE_RESULT_RESOURCE_EXHAUSTION))
      (example_item 7 8)) < 2
   \<and> resubmit example_queue
        (ProcCoffeaWQTask 0 (Some (failed_with WORK_QUEUE_RESULT_RESOURCE_EXHAUSTION))
           (example_item 7 8))
      = Some (Inl (RuntimeError ''item {} failed permanently. No more retries left.''),
              example_queue)"
proof -
  have h1: "retries_to_go (ProcCoffeaWQTask 0
      (Some (failed_with WORK_QUEUE_RESULT_RESOURCE_EXHAUSTION)) (example_item 7 8)) < 1"
    by simp
  have h2: "len_task (ProcCoffeaWQTask 0
      (Some (failed_with WORK_QUEUE_RESULT_RESOURCE_EXHAUSTION)) (example_item 7 8)) < 2"
    by (simp add: len_item_def example_item_def)
  show ?thesis
    using resubmit_without_retries [OF h1 h2, of example_queue] h1 h2 by blast
qed

subsection \<open>C4: a failure that is not resource exhaustion\<close>

lemma resubmit_other:
  assumes "\<not> exhausted t" "1 \<le> retries_to_go t" "split_on_exhaustion (executor q)"
    and "clone q t = Inl e"
  shows "resubmit q t = Some (Inl e, q)"
  using assms by (simp add: resubmit_def)

lemma clone_proc_type_error:
  assumes "0 \<le> len_item it" "len_item it < 2 ^ 63"
  shows "clone q (ProcCoffeaWQTask r res it)
           = Inl (TypeError ''__init__() missing required positional arguments'')"
  using py_len_ok [OF assms] by (simp add: ProcCoffeaWQTask_init_raises)

text \<open>
  C4. The claim reads: a failed task whose failure is not resource exhaustion is,
  with a retry budget of at least 1, cloned over the same range with
  \<^verbatim>\<open>retries_to_go\<close> decremented and the clone submitted; otherwise a permanent failure
  is raised. \<^verbatim>\<open>resubmit\<close> is written to do so, behind the gate
  \<^verbatim>\<open>retries_to_go < 1 or not split_on_exhaustion\<close>; but \<^verbatim>\<open>clone\<close> builds the new task
  with the constructor of its class, which calls the base constructor with five
  arguments for its six parameters. With retries left (and the split option on) the
  call raises what \<^verbatim>\<open>clone\<close> raises, the TypeError for a processing task, and submits
  nothing; without, it raises the permanent failure. No call of \<^verbatim>\<open>resubmit\<close> on such
  a task submits a clone.
\<close>

theorem resubmit_other_failure:
  assumes "\<not> exhausted t"
  shows "(\<exists>e. resubmit q t = Some (Inl e, q))
       \<and> (retries_to_go t < 1 \<or> \<not> split_on_exhaustion (executor q) \<longrightarrow>
            resubmit q t =
              Some (Inl (RuntimeError ''item {} failed permanently. No more retries left.''), q))
       \<and> (1 \<le> retries_to_go t \<and> split_on_exhaustion (executor q) \<longrightarrow>
            (\<exists>e. clone q t = Inl e \<and> resubmit q t = Some (Inl e, q)))
       \<and> (\<forall>r res it. 1 \<le> retries_to_go t \<and> split_on_exhaustion (executor q)
              \<and> t = ProcCoffeaWQTask r res it \<and> 0 \<le> len_item it \<and> len_item it < 2 ^ 63 \<longrightarrow>
            resubmit q t =
              Some (Inl (TypeError ''__init__() missing required positional arguments''), q))"
proof -
  have gate: "resubmit q t =
      Some (Inl (RuntimeError ''item {} failed permanently. No more retries left.''), q)"
    if "retries_to_go t < 1 \<or> \<not> split_on_exhaustion (executor q)"
    using that by (auto simp: resubmit_def)
  have retry: "\<exists>e. clone q t = Inl e \<and> resubmit q t = Some (Inl e, q)"
    if "1 \<le> retries_to_go t \<and> split_on_exhaustion (executor q)"
    using that clone_raises [of q t] resubmit_other [OF assms, of q] by blast
  have proc: "resubmit q t =
      Some (Inl (TypeError ''__init__() missing required positional arguments''), q)"
    if "1 \<le> retries_to_go t \<and> split_on_exhaustion (executor q)
        \<and> t = ProcCoffeaWQTask r res it \<and> 0 \<le> len_item it \<and> len_item it < 2 ^ 63"
    for r res it
  proof -
    have "clone q t = Inl (TypeError ''__init__() missing required positional arguments'')"
      using that clone_proc_type_error [of it q r res] by blast
    moreover have "1 \<le> retries_to_go t" "split_on_exhaustion (executor q)"
      using that by blast+
    ultimately show ?thesis using assms by (intro resubmit_other)
  qed
  have "\<exists>e. resubmit q t = Some (Inl e, q)"
    using gate retry by (cases "retries_to_go t < 1 \<or> \<not> split_on_exhaustion (executor q)") auto
  then show ?thesis using gate retry proc by blast
qed

theorem resubmit_other_failure_witness:
  "\<not> exhausted (ProcCoffeaWQTask 3 (Some (failed_with WORK_QUEUE_RESULT_OTHER)) (example_item 0 100))
   \<and> 1 \<le> retries_to_go
        (ProcCoffeaWQTask 3 (Some (failed_with WORK_QUEUE_RESULT_OTHER)) (example_item 0 100))
   \<and> split_on_exhaustion (executor example_queue)
   \<and> 0 \<le> len_item (example_item 0 100) \<and> len_item (example_item 0 100) < 2 ^ 63
   \<and> resubmit example_queue
        (ProcCoffeaWQTask 3 (Some (failed_with WORK_QUEUE_RESULT_OTHER)) (example_item 0 100))
      = Some (Inl (TypeError ''__init__() missing required positional arguments''), example_queue)
   \<and> resubmit (example_queue\<lparr>executor := example_executor\<lparr>split_on_exhaustion := False\<rparr>\<rparr>)
        (ProcCoffeaWQTask 3 (Some (failed_with WORK_QUEUE_RESULT_OTHER)) (example_item 0 100))
      = Some (Inl (RuntimeError ''item {} failed permanently. No more retries left.''),
              example_queue\<lparr>executor := example_executor\<lparr>split_on_exhaustion := False\<rparr>\<rparr>)"
proof -
  let ?t = "ProcCoffeaWQTask 3 (Some (failed_with WORK_QUEUE_RESULT_OTHER)) (example_item 0 100)"
  let ?q = "example_queue\<lparr>executor := example_executor\<lparr>split_on_exhaustion := False\<rparr>\<rparr>"
  have h: "\<not> exhausted ?t" by (simp add: exhausted_def failed_with_def)
  have c: "1 \<le> retries_to_go ?t \<and> split_on_exhaustion (executor example_queue)
      \<and> 0 \<le> len_item (example_item 0 100) \<and> len_item (example_item 0 100) < 2 ^ 63"
    by (simp add: example_queue_def example_executor_def len_item_def example_item_def)
  have g: "retries_to_go ?t < 1 \<or> \<not> split_on_exhaustion (executor ?q)"
    by simp
  have "resubmit example_queue ?t
      = Some (Inl (TypeError ''__init__() missing required positional arguments''), example_queue)"
    using resubmit_other_failure [OF h, of example_queue] c by blast
  moreover have "resubmit ?q ?t
      = Some (Inl (RuntimeError ''item {} failed permanently. No more retries left.''), ?q)"
    using resubmit_other_failure [OF h, of ?q] g by blast
  ultimately show ?thesis using h c by blast
qed

section \<open>Properties of the accumulation scheduler\<close>

lemma AccumCoffeaWQTask_init_string:
  "AccumCoffeaWQTask_init q (Inl s) =
     Inl (if s \<noteq> [] then AttributeError ''str object has no attribute outfile_output''
          else TypeError ''__init__() missing required positional arguments'')"
  by (simp add: AccumCoffeaWQTask_init_def CoffeaWQTask_init_five)

lemma submit_accum_tasks_emits:
  assumes cfg: "2 \<le> chunks_per_accum (executor q)" "2 \<le> chunks_accum_in_mem (executor q)"
    and due: "2 * chunks_per_accum (executor q) - 1 \<le> int (length tasks) \<or> force_last_accum"
    and two: "2 \<le> length tasks"
  shows "submit_accum_tasks q infile_function tasks force_last_accum =
           (Inl (if infile_function \<noteq> []
                 then AttributeError ''str object has no attribute outfile_output''
                 else TypeError ''__init__() missing required positional arguments''), q)"
proof -
  define n where "n = nat (chunks_per_accum (executor q))"
  define sorted_tasks where "sorted_tasks = sort_key fout_size_of tasks"
  have n2: "2 \<le> n" and nn: "chunks_per_accum (executor q) = int n"
    using cfg by (auto simp: n_def)
  have len: "length sorted_tasks = length tasks" by (simp add: sorted_tasks_def)
  then have ne: "sorted_tasks \<noteq> []" using two by auto
  have groups: "chunks_of n sorted_tasks = take n sorted_tasks # chunks_of n (drop n sorted_tasks)"
    using ne n2 by (subst chunks_of.simps) simp
  have g2: "\<not> length (take n sorted_tasks) < 2" using n2 two len by simp
  have full: "\<not> (int (length (take n sorted_tasks)) < int n \<and> \<not> force_last_accum)"
    using due n2 len nn by auto
  have "group_lst sorted_tasks (chunks_per_accum (executor q)) = Inr (chunks_of n sorted_tasks)"
    using n2 nn by (simp add: group_lst_def)
  moreover have "\<not> (int (length tasks) < 2 * chunks_per_accum (executor q) - 1
                   \<and> \<not> force_last_accum)"
    using due by auto
  ultimately show ?thesis
    using cfg g2 full
    by (simp add: submit_accum_tasks_def sorted_tasks_def [symmetric] groups
        AccumCoffeaWQTask_init_string flip: nn)
qed

lemma submit_accum_tasks_short:
  assumes cfg: "2 \<le> chunks_per_accum (executor q)" "2 \<le> chunks_accum_in_mem (executor q)"
    and short: "length tasks < 2"
  shows "submit_accum_tasks q infile_function tasks force_last_accum = (Inr tasks, q)"
proof (cases tasks)
  case Nil
  then show ?thesis
    using cfg by (simp add: submit_accum_tasks_def group_lst_def chunks_of.simps)
next
  case (Cons t rest)
  then have t: "tasks = [t]" using short by simp
  have "chunks_of (nat (chunks_per_accum (executor q))) [t] = [[t]]"
    using cfg by (simp add: chunks_of.simps)
  then show ?thesis
    using cfg t by (simp add: submit_accum_tasks_def group_lst_def)
qed

subsection \<open>C3: when and what the scheduler emits\<close>

text \<open>
  C3. The claim reads: \<^verbatim>\<open>_submit_accum_tasks\<close> emits accumulation tasks only when
  \<^verbatim>\<open>len(pending) >= 2 * chunks_per_accum - 1\<close> or when forced; it sorts the pending list by
  output size, cuts it into consecutive groups of \<^verbatim>\<open>chunks_per_accum\<close>, and emits the
  groups of at least 2 (the full ones, when not forced), which with the leftover
  cover the pending list. The function is written to do so, and below the trigger it
  returns the pending list as it is; but it builds each accumulation task with
  \<^verbatim>\<open>AccumCoffeaWQTask(executor, fn_wrapper, infile_function, next_to_accum, tmpdir)\<close>,
  which puts \<^verbatim>\<open>infile_function\<close>, a file name, where the constructor expects the tasks.
  With both options at least 2: whenever an emission is due and two tasks are
  pending, the call raises at the first group (AttributeError; for an empty file
  name the TypeError of the base constructor's arity) and submits nothing; with
  fewer than two pending tasks it returns them. No call submits an accumulation task.
\<close>

theorem submit_accum_tasks_raises:
  assumes "2 \<le> chunks_per_accum (executor q)" and "2 \<le> chunks_accum_in_mem (executor q)"
  shows "(int (length tasks) < 2 * chunks_per_accum (executor q) - 1 \<and> \<not> force_last_accum \<longrightarrow>
            submit_accum_tasks q infile_function tasks force_last_accum = (Inr tasks, q))
       \<and> (length tasks < 2 \<longrightarrow>
            submit_accum_tasks q infile_function tasks force_last_accum = (Inr tasks, q))
       \<and> ((2 * chunks_per_accum (executor q) - 1 \<le> int (length tasks) \<or> force_last_accum)
            \<and> 2 \<le> length tasks \<longrightarrow>
            submit_accum_tasks q infile_function tasks force_last_accum =
              (Inl (if infile_function \<noteq> []
                    then AttributeError ''str object has no attribute outfile_output''
                    else TypeError ''__init__() missing required positional arguments''), q))
       \<and> submitted (snd (submit_accum_tasks q infile_function tasks force_last_accum))
            = submitted q"
proof -
  have below: "submit_accum_tasks q infile_function tasks force_last_accum = (Inr tasks, q)"
    if "int (length tasks) < 2 * chunks_per_accum (executor q) - 1 \<and> \<not> force_last_accum"
    using that assms by (simp add: submit_accum_tasks_def)
  have short: "submit_accum_tasks q infile_function tasks force_last_accum = (Inr tasks, q)"
    if "length tasks < 2"
    using that assms by (intro submit_accum_tasks_short)
  have due: "submit_accum_tasks q infile_function tasks force_last_accum =
      (Inl (if infile_function \<noteq> []
            then AttributeError ''str object has no attribute outfile_output''
            else TypeError ''__init__() missing required positional arguments''), q)"
    if "(2 * chunks_per_accum (executor q) - 1 \<le> int (length tasks) \<or> force_last_accum)
        \<and> 2 \<le> length tasks"
    using that assms by (intro submit_accum_tasks_emits) blast+
  have "submitted (snd (submit_accum_tasks q infile_function tasks force_last_accum))
          = submitted q"
  proof (cases "length tasks < 2")
    case True
    then show ?thesis using short by simp
  next
    case False
    then show ?thesis
      using below due
      by (cases "int (length tasks) < 2 * chunks_per_accum (executor q) - 1 \<and> \<not> force_last_accum")
         (simp, simp add: not_less)
  qed
  then show ?thesis using below short due by blast
qed

theorem submit_accum_tasks_raises_witness:
  "2 \<le> chunks_per_accum (executor example_queue)
   \<and> 2 \<le> chunks_accum_in_mem (executor example_queue)
   \<and> 2 * chunks_per_accum (executor example_queue) - 1
        \<le> int (length [finished 5 0 50, finished 3 50 100, finished 4 100 150,
                        finished 1 150 200, finished 2 200 250])
   \<and> submit_accum_tasks example_queue ''accum_fn.p''
        [finished 5 0 50, finished 3 50 100, finished 4 100 150, finished 1 150 200,
         finished 2 200 250] False
      = (Inl (AttributeError ''str object has no attribute outfile_output''), example_queue)
   \<and> submit_accum_tasks example_queue ''accum_fn.p''
        [finished 5 0 50, finished 3 50 100] True
      = (Inl (AttributeError ''str object has no attribute outfile_output''), example_queue)
   \<and> submit_accum_tasks example_queue ''accum_fn.p''
        [finished 5 0 50, finished 3 50 100] False
      = (Inr [finished 5 0 50, finished 3 50 100], example_queue)"
proof -
  let ?five = "[finished 5 0 50, finished 3 50 100, finished 4 100 150, finished 1 150 200,
                finished 2 200 250]"
  let ?two = "[finished 5 0 50, finished 3 50 100]"
  have c: "2 \<le> chunks_per_accum (executor example_queue)"
          "2 \<le> chunks_accum_in_mem (executor example_queue)"
    by (simp_all add: example_queue_def example_executor_def)
  have d: "2 * chunks_per_accum (executor example_queue) - 1 \<le> int (length ?five)"
    by (simp add: example_queue_def example_executor_def)
  have "submit_accum_tasks example_queue ''accum_fn.p'' ?five False
      = (Inl (AttributeError ''str object has no attribute outfile_output''), example_queue)"
    using submit_accum_tasks_raises [OF c, of ?five False "''accum_fn.p''"] d by simp
  moreover have "submit_accum_tasks example_queue ''accum_fn.p'' ?two True
      = (Inl (AttributeError ''str object has no attribute outfile_output''), example_queue)"
    using submit_accum_tasks_raises [OF c, of ?two True "''accum_fn.p''"] by simp
  moreover have "submit_accum_tasks example_queue ''accum_fn.p'' ?two False = (Inr ?two, example_queue)"
    using submit_accum_tasks_raises [OF c, of ?two False "''accum_fn.p''"]
    by (simp add: example_queue_def example_executor_def)
  ultimately show ?thesis using c d by blast
qed

section \<open>Properties of the entry point\<close>

subsection \<open>C7: configuration errors\<close>

text \<open>
  C7. The claim reads: a dynamic-sizing target outside wall\_time and memory, or
  \<^verbatim>\<open>chunks_per_accum < 2\<close>, or \<^verbatim>\<open>chunks_accum_in_mem < 2\<close>, is detected before the main
  control loop starts and raised at once, before any task is submitted. For the
  targets this is what \<^verbatim>\<open>work_queue_main\<close> does first. The two chunk options are
  tested where \<^verbatim>\<open>_submit_accum_tasks\<close> begins, which raises for them on every call,
  but \<^verbatim>\<open>work_queue_main\<close> does not look at them: with known targets it ends in another
  exception, whatever the chunk options are, the last of them the NameError of
  \<^verbatim>\<open>fn_wrapper\<close>, which it reads as an argument of the call that would start the loop.
  So a run with \<^verbatim>\<open>chunks_per_accum = 1\<close> does not raise the configuration error.
\<close>

theorem configuration_errors:
  "(\<not> (case dynamic_chunksize ex of None \<Rightarrow> True
        | Some m \<Rightarrow> dom m \<subseteq> {''wall_time'', ''memory''}) \<longrightarrow>
      (work_queue_main backend_setup ex :: error + 'r)
        = Inl (KeyError ''dynamic chunksize resource {} is unknown.''))
   \<and> ((case dynamic_chunksize ex of None \<Rightarrow> True
        | Some m \<Rightarrow> dom m \<subseteq> {''wall_time'', ''memory''}) \<longrightarrow>
      (work_queue_main backend_setup ex :: error + 'r)
        = Inl (if environment_file ex \<noteq> None \<and> environment_file ex \<noteq> Some []
               then AttributeError ''str object has no attribute wrapper''
               else if compression ex = None then NameError ''self''
               else case backend_setup ex of
                      Some e \<Rightarrow> e
                    | None \<Rightarrow> NameError ''fn_wrapper'')
      \<and> (work_queue_main backend_setup (ex\<lparr>chunks_per_accum := c, chunks_accum_in_mem := d\<rparr>)
            :: error + 'r)
          = work_queue_main (\<lambda>_. backend_setup (ex\<lparr>chunks_per_accum := c, chunks_accum_in_mem := d\<rparr>)) ex)
   \<and> (chunks_per_accum (executor q) < 2 \<or> chunks_accum_in_mem (executor q) < 2 \<longrightarrow>
        submit_accum_tasks q infile_function tasks force_last_accum
          = (Inl (RuntimeError ''A minimum of two chunks should be used when accumulating''), q))"
  by (auto simp: work_queue_main_def check_dynamic_chunksize_targets_def submit_accum_tasks_def
      split: option.splits)

theorem configuration_errors_witness:
  "(case dynamic_chunksize (example_executor\<lparr>chunks_per_accum := 1\<rparr>) of None \<Rightarrow> True
    | Some m \<Rightarrow> dom m \<subseteq> {''wall_time'', ''memory''})
   \<and> (work_queue_main (\<lambda>_. None) (example_executor\<lparr>chunks_per_accum := 1\<rparr>) :: error + unit)
       = Inl (NameError ''fn_wrapper'')
   \<and> \<not> (case dynamic_chunksize (example_executor\<lparr>dynamic_chunksize := Some [''cores'' \<mapsto> Finite 1]\<rparr>)
          of None \<Rightarrow> True | Some m \<Rightarrow> dom m \<subseteq> {''wall_time'', ''memory''})
   \<and> (work_queue_main (\<lambda>_. None)
         (example_executor\<lparr>dynamic_chunksize := Some [''cores'' \<mapsto> Finite 1]\<rparr>) :: error + unit)
       = Inl (KeyError ''dynamic chunksize resource {} is unknown.'')
   \<and> chunks_per_accum (executor (example_queue\<lparr>executor := example_executor\<lparr>chunks_per_accum := 1\<rparr>\<rparr>)) < 2
   \<and> submit_accum_tasks (example_queue\<lparr>executor := example_executor\<lparr>chunks_per_accum := 1\<rparr>\<rparr>)
        ''accum_fn.p'' [finished 5 0 50] False
      = (Inl (RuntimeError ''A minimum of two chunks should be used when accumulating''),
         example_queue\<lparr>executor := example_executor\<lparr>chunks_per_accum := 1\<rparr>\<rparr>)"
proof -
  let ?ex1 = "example_executor\<lparr>chunks_per_accum := 1\<rparr>"
  let ?ex2 = "example_executor\<lparr>dynamic_chunksize := Some [''cores'' \<mapsto> Finite 1]\<rparr>"
  let ?q = "example_queue\<lparr>executor := ?ex1\<rparr>"
  have k: "(case dynamic_chunksize ?ex1 of None \<Rightarrow> True
            | Some m \<Rightarrow> dom m \<subseteq> {''wall_time'', ''memory''})"
    by (simp add: example_executor_def)
  have u: "\<not> (case dynamic_chunksize ?ex2 of None \<Rightarrow> True
              | Some m \<Rightarrow> dom m \<subseteq> {''wall_time'', ''memory''})"
    by simp
  have c: "chunks_per_accum (executor ?q) < 2" by simp
  have "(work_queue_main (\<lambda>_. None) ?ex1 :: error + unit) = Inl (NameError ''fn_wrapper'')"
    using configuration_errors [where ?'r = unit and ex = ?ex1 and backend_setup = "\<lambda>_. None"] k
    by (simp add: example_executor_def)
  moreover have "(work_queue_main (\<lambda>_. None) ?ex2 :: error + unit)
      = Inl (KeyError ''dynamic chunksize resource {} is unknown.'')"
    using configuration_errors [where ?'r = unit and ex = ?ex2 and backend_setup = "\<lambda>_. None"] u
    by blast
  moreover have "submit_accum_tasks ?q ''accum_fn.p'' [finished 5 0 50] False
      = (Inl (RuntimeError ''A minimum of two chunks should be used when accumulating''), ?q)"
    using configuration_errors [where ?'r = unit and q = ?q] c by blast
  ultimately show ?thesis using k u c by blast
qed

end
